theory Spec2Isabelle
  imports Main "HOL-Library.Signed_Division" "HOL-Library.Log_Nat"
begin

section \<open>Breach model (pkg/breach/types.go and its users)\<close>

text \<open>
  \<^verbatim>\<open>type BreachType string\<close>.  The three tags are declared beside the breach structs;
  the configuration guide writes them \<^verbatim>\<open>type: key-value\<close>.
\<close>

type_synonym BreachType = string

text \<open>Modelled from the spec: the tag constants of the three breach variants, whose
  declaration is not among the sources; the values are the ones the configuration
  guide shows.\<close>

definition BreachTypeValue :: BreachType where
  "BreachTypeValue = ''value''"

definition BreachTypeKeyValue :: BreachType where
  "BreachTypeKeyValue = ''key-value''"

definition BreachTypeKeyValues :: BreachType where
  "BreachTypeKeyValues = ''key-values''"

text \<open>Modelled from the spec: the remediation outcome carried by every breach
  (status and messages); the renderer never writes it.\<close>

record RemediationResult =
  Status :: string
  Messages :: "string list"

definition noRemediationResult :: RemediationResult where
  "noRemediationResult = \<lparr>Status = [], Messages = []\<rparr>"

text \<open>Modelled from the spec: the three breach structs, with the fields that
  \<^verbatim>\<open>EvaluateTemplateWithContext\<close> and the tests read and write.  The remediator is an
  interface value of another package: \<open>'r option\<close>, \<open>None\<close> for nil.\<close>

record 'r ValueBreach =
  vBreachType :: BreachType
  vCheckType :: string
  vCheckName :: string
  vSeverity :: string
  vValueLabel :: string
  vValue :: string
  vRemediator :: "'r option"
  vRemediationResult :: RemediationResult

record 'r KeyValueBreach =
  kvBreachType :: BreachType
  kvCheckType :: string
  kvCheckName :: string
  kvSeverity :: string
  kvKeyLabel :: string
  kvKey :: string
  kvValueLabel :: string
  kvValue :: string
  kvExpectedValue :: string
  kvRemediator :: "'r option"
  kvRemediationResult :: RemediationResult

record 'r KeyValuesBreach =
  kvsBreachType :: BreachType
  kvsCheckType :: string
  kvsCheckName :: string
  kvsSeverity :: string
  kvsKeyLabel :: string
  kvsKey :: string
  kvsValueLabel :: string
  kvsValues :: "string list"
  kvsRemediator :: "'r option"
  kvsRemediationResult :: RemediationResult

text \<open>The \<^verbatim>\<open>Breach\<close> interface is implemented by pointers to the three structs.\<close>

datatype 'r Breach =
    IsValueBreach "'r ValueBreach"
  | IsKeyValueBreach "'r KeyValueBreach"
  | IsKeyValuesBreach "'r KeyValuesBreach"

text \<open>Modelled from the spec: the interface methods.  \<^verbatim>\<open>GetType\<close> answers by variant
  (the tests render breaches whose \<^verbatim>\<open>BreachType\<close> field was never filled in and
  still get a breach of the same struct back).\<close>

fun GetType :: "'r Breach \<Rightarrow> BreachType" where
  "GetType (IsValueBreach b) = BreachTypeValue"
| "GetType (IsKeyValueBreach b) = BreachTypeKeyValue"
| "GetType (IsKeyValuesBreach b) = BreachTypeKeyValues"

fun GetCheckType :: "'r Breach \<Rightarrow> string" where
  "GetCheckType (IsValueBreach b) = vCheckType b"
| "GetCheckType (IsKeyValueBreach b) = kvCheckType b"
| "GetCheckType (IsKeyValuesBreach b) = kvsCheckType b"

fun GetCheckName :: "'r Breach \<Rightarrow> string" where
  "GetCheckName (IsValueBreach b) = vCheckName b"
| "GetCheckName (IsKeyValueBreach b) = kvCheckName b"
| "GetCheckName (IsKeyValuesBreach b) = kvsCheckName b"

fun GetSeverity :: "'r Breach \<Rightarrow> string" where
  "GetSeverity (IsValueBreach b) = vSeverity b"
| "GetSeverity (IsKeyValueBreach b) = kvSeverity b"
| "GetSeverity (IsKeyValuesBreach b) = kvsSeverity b"

fun SetRemediator :: "'r option \<Rightarrow> 'r Breach \<Rightarrow> 'r Breach" where
  "SetRemediator r (IsValueBreach b) = IsValueBreach (b\<lparr>vRemediator := r\<rparr>)"
| "SetRemediator r (IsKeyValueBreach b) = IsKeyValueBreach (b\<lparr>kvRemediator := r\<rparr>)"
| "SetRemediator r (IsKeyValuesBreach b) = IsKeyValuesBreach (b\<lparr>kvsRemediator := r\<rparr>)"

text \<open>Modelled from the spec: the field getters used by the legacy path; a variant
  without the field answers the empty string.\<close>

fun BreachGetValueLabel :: "'r Breach \<Rightarrow> string" where
  "BreachGetValueLabel (IsValueBreach b) = vValueLabel b"
| "BreachGetValueLabel (IsKeyValueBreach b) = kvValueLabel b"
| "BreachGetValueLabel (IsKeyValuesBreach b) = kvsValueLabel b"

fun BreachGetValue :: "'r Breach \<Rightarrow> string" where
  "BreachGetValue (IsValueBreach b) = vValue b"
| "BreachGetValue (IsKeyValueBreach b) = kvValue b"
| "BreachGetValue (IsKeyValuesBreach b) = []"

fun BreachGetKeyLabel :: "'r Breach \<Rightarrow> string" where
  "BreachGetKeyLabel (IsValueBreach b) = []"
| "BreachGetKeyLabel (IsKeyValueBreach b) = kvKeyLabel b"
| "BreachGetKeyLabel (IsKeyValuesBreach b) = kvsKeyLabel b"

fun BreachGetKey :: "'r Breach \<Rightarrow> string" where
  "BreachGetKey (IsValueBreach b) = []"
| "BreachGetKey (IsKeyValueBreach b) = kvKey b"
| "BreachGetKey (IsKeyValuesBreach b) = kvsKey b"

text \<open>\<^verbatim>\<open>type BreachTemplate struct\<close>.  \<^verbatim>\<open>Templates\<close> is a Go map: an association list
  read with \<^const>\<open>map_of\<close>, whose emptiness is \<^verbatim>\<open>len(t.Templates) == 0\<close>.  The values of
  \<^verbatim>\<open>Context\<close> are arbitrary (\<^verbatim>\<open>interface{}\<close>): a type parameter.\<close>

record 'c BreachTemplate =
  Type :: BreachType
  KeyLabel :: string
  Key :: string
  ValueLabel :: string
  Value :: string
  Template :: string
  Templates :: "(string \<times> string) list"
  Context :: "(string \<times> 'c) list"

text \<open>\<^verbatim>\<open>type TemplateContext struct\<close>.  \<^verbatim>\<open>Breach\<close> holds the pointer handed to the
  renderer; a template can only read through it (the interface's setters return nothing,
  so the template language cannot call them), hence the context carries the value the
  pointer designates when the context is built.\<close>

record ('r, 'c) TemplateContext =
  ctxBreach :: "'r Breach"
  ctxOutputFormat :: string
  ctxSeverity :: string
  ctxCheckName :: string
  ctxCheckType :: string
  ctxContext :: "(string \<times> 'c) list"

section \<open>Objects and the templater\<close>

text \<open>
  Breaches are handled through pointers, and the legacy path writes through the pointer
  it was given.  The store is the list of all breach objects; an address is an index into
  it, and \<^verbatim>\<open>&ValueBreach{...}\<close> allocates at the end.
\<close>

type_synonym addr = nat
type_synonym 'r store = "'r Breach list"

definition new_breach :: "'r store \<Rightarrow> 'r Breach \<Rightarrow> addr \<times> 'r store" where
  "new_breach h b = (length h, h @ [b])"

text \<open>\<^verbatim>\<open>mockBreachTemplater\<close> (breachtemplate_test.go), the one implementation of
  \<^verbatim>\<open>BreachTemplater\<close> among the sources: a template and the breaches added so far.\<close>

record 'c BreachTemplater =
  template :: "'c BreachTemplate"
  breaches :: "addr list"

definition AddBreach :: "'c BreachTemplater \<Rightarrow> addr \<Rightarrow> 'c BreachTemplater" where
  "AddBreach m b = m\<lparr>breaches := breaches m @ [b]\<rparr>"

definition GetBreachTemplate :: "'c BreachTemplater \<Rightarrow> 'c BreachTemplate" where
  "GetBreachTemplate m = template m"

type_synonym ('r, 'c) world = "'r store \<times> 'c BreachTemplater"

section \<open>Template evaluation (EvaluateTemplateStringWithContext)\<close>

text \<open>
  Parsing and executing a template is the work of Go's \<^verbatim>\<open>text/template\<close>, which is not
  part of the repository.  Its outcome on a source string and a context is a parameter of
  the model:
  \<^item> \<open>ParseError e\<close>: \<^verbatim>\<open>Parse\<close> returned the error with text \<open>e\<close>;
  \<^item> \<open>ExecError e\<close>: \<^verbatim>\<open>Parse\<close> succeeded and \<^verbatim>\<open>Execute\<close> returned the error with text
    \<open>e\<close> (a panic inside a template function is recovered by the library and is such an
    error);
  \<^item> \<open>Rendered out\<close>: both succeeded and the buffer holds \<open>out\<close>.
\<close>

datatype tmpl_result = ParseError string | ExecError string | Rendered string

type_synonym ('r, 'c) engine = "string \<Rightarrow> ('r, 'c) TemplateContext \<Rightarrow> tmpl_result"

text \<open>\<^verbatim>\<open>&ValueBreach{ValueLabel: label, Value: value}\<close>: every other field has Go's zero
  value.\<close>

definition labelledValueBreach :: "string \<Rightarrow> string \<Rightarrow> 'r Breach" where
  "labelledValueBreach label val = IsValueBreach
     \<lparr>vBreachType = [], vCheckType = [], vCheckName = [], vSeverity = [],
      vValueLabel = label, vValue = val,
      vRemediator = None, vRemediationResult = noRemediationResult\<rparr>"

definition EvaluateTemplateStringWithContext ::
  "('r, 'c) engine \<Rightarrow> ('r, 'c) world \<Rightarrow> string \<Rightarrow> ('r, 'c) TemplateContext
     \<Rightarrow> string \<times> ('r, 'c) world" where
  "EvaluateTemplateStringWithContext eng w templateStr ctx =
     (case w of (h, bt) \<Rightarrow>
        (case eng templateStr ctx of
           ParseError err \<Rightarrow>
             (case new_breach h (labelledValueBreach ''unable to parse breach template'' err) of
                (a, h') \<Rightarrow> (templateStr, (h', AddBreach bt a)))
         | ExecError err \<Rightarrow>
             (case new_breach h (labelledValueBreach ''unable to render breach template'' err) of
                (a, h') \<Rightarrow> (templateStr, (h', AddBreach bt a)))
         | Rendered out \<Rightarrow> (out, (h, bt))))"

section \<open>Rendering a breach (EvaluateTemplateWithContext)\<close>

text \<open>The choice of the rich template, lines 41--52 of breachtemplate.go: the
  \<^verbatim>\<open>if len(t.Templates) > 0 { ... } else if t.Template != "" { ... }\<close> statement that
  fills \<^verbatim>\<open>templateStr\<close>.\<close>

definition selectTemplateStr :: "'c BreachTemplate \<Rightarrow> string \<Rightarrow> string" where
  "selectTemplateStr t outputFormat =
     (if Templates t \<noteq> [] then
        (case map_of (Templates t) outputFormat of
           Some formatTemplate \<Rightarrow> formatTemplate
         | None \<Rightarrow>
             (case map_of (Templates t) ''default'' of
                Some defaultTemplate \<Rightarrow> defaultTemplate
              | None \<Rightarrow> []))
      else if Template t \<noteq> [] then Template t
      else [])"

text \<open>The struct literals of the \<^verbatim>\<open>switch b.GetType()\<close> of the rich path: a fresh
  breach of the same struct; a field the literal does not name has Go's zero value.\<close>

definition enhancedBreach :: "'r Breach \<Rightarrow> string \<Rightarrow> 'r Breach" where
  "enhancedBreach b renderedValue =
     (case b of
        IsValueBreach vb \<Rightarrow> IsValueBreach
          \<lparr>vBreachType = GetType b, vCheckType = GetCheckType b,
           vCheckName = GetCheckName b, vSeverity = GetSeverity b,
           vValueLabel = [], vValue = renderedValue,
           vRemediator = None, vRemediationResult = noRemediationResult\<rparr>
      | IsKeyValueBreach originalBreach \<Rightarrow> IsKeyValueBreach
          \<lparr>kvBreachType = GetType b, kvCheckType = GetCheckType b,
           kvCheckName = GetCheckName b, kvSeverity = GetSeverity b,
           kvKeyLabel = kvKeyLabel originalBreach, kvKey = kvKey originalBreach,
           kvValueLabel = kvValueLabel originalBreach, kvValue = renderedValue,
           kvExpectedValue = [],
           kvRemediator = None, kvRemediationResult = noRemediationResult\<rparr>
      | IsKeyValuesBreach originalBreach \<Rightarrow> IsKeyValuesBreach
          \<lparr>kvsBreachType = GetType b, kvsCheckType = GetCheckType b,
           kvsCheckName = GetCheckName b, kvsSeverity = GetSeverity b,
           kvsKeyLabel = kvsKeyLabel originalBreach, kvsKey = kvsKey originalBreach,
           kvsValueLabel = kvsValueLabel originalBreach, kvsValues = [renderedValue],
           kvsRemediator = None, kvsRemediationResult = noRemediationResult\<rparr>)"

text \<open>One \<^verbatim>\<open>if t.F != "" { rendered.F = EvaluateTemplateStringWithContext(bt, t.F, ctx) }\<close>
  of the legacy path: the current value of the field and the world go in, the new ones
  come out.\<close>

definition renderField ::
  "('r, 'c) engine \<Rightarrow> ('r, 'c) TemplateContext \<Rightarrow> string \<Rightarrow> string \<times> ('r, 'c) world
     \<Rightarrow> string \<times> ('r, 'c) world" where
  "renderField eng ctx src cw =
     (case cw of (cur, w) \<Rightarrow>
        if src \<noteq> [] then EvaluateTemplateStringWithContext eng w src ctx else (cur, w))"

text \<open>The \<^verbatim>\<open>switch rendered.Type\<close> of the legacy path: the rendered fields are assigned
  to the breach the pointer designates (\<^verbatim>\<open>rendered.Type\<close> is \<^verbatim>\<open>b.GetType()\<close>, so the
  case taken is the one of \<open>b\<close>'s struct).\<close>

definition legacyBreach :: "'c BreachTemplate \<Rightarrow> 'r Breach \<Rightarrow> 'r Breach" where
  "legacyBreach rendered b =
     (case b of
        IsValueBreach breach \<Rightarrow> IsValueBreach
          (breach\<lparr>vValueLabel := ValueLabel rendered, vValue := Value rendered\<rparr>)
      | IsKeyValueBreach breach \<Rightarrow> IsKeyValueBreach
          (breach\<lparr>kvKeyLabel := KeyLabel rendered, kvKey := Key rendered,
                  kvValueLabel := ValueLabel rendered, kvValue := Value rendered\<rparr>)
      | IsKeyValuesBreach breach \<Rightarrow> IsKeyValuesBreach
          (breach\<lparr>kvsKeyLabel := KeyLabel rendered, kvsKey := Key rendered,
                  kvsValueLabel := ValueLabel rendered\<rparr>))"

text \<open>The \<^verbatim>\<open>TemplateContext{...}\<close> literal of lines 32--39.\<close>

definition newTemplateContext ::
  "'c BreachTemplate \<Rightarrow> 'r Breach \<Rightarrow> string \<Rightarrow> ('r, 'c) TemplateContext" where
  "newTemplateContext t b outputFormat =
     \<lparr>ctxBreach = b, ctxOutputFormat = outputFormat,
      ctxSeverity = GetSeverity b, ctxCheckName = GetCheckName b,
      ctxCheckType = GetCheckType b, ctxContext = Context t\<rparr>"

text \<open>\<^verbatim>\<open>EvaluateTemplateWithContext(bt, b, remediation, outputFormat)\<close>.  \<open>b\<close> is the
  address of the breach, \<open>r\<close> the remediator that \<^verbatim>\<open>RemediatorFromInterface\<close> (another
  package) makes of \<^verbatim>\<open>remediation\<close>.  The analysers pass a pointer to a breach they have
  just built, an address below the length of the store; the statements about this
  function assume it.  The breach is read through its pointer where the code reads it:
  before the evaluations for the context and the legacy fields, after them for the new
  struct and for the assignments.\<close>

definition EvaluateTemplateWithContext ::
  "('r, 'c) engine \<Rightarrow> ('r, 'c) world \<Rightarrow> addr \<Rightarrow> 'r option \<Rightarrow> string \<Rightarrow> ('r, 'c) world" where
  "EvaluateTemplateWithContext eng w b r outputFormat =
     (case w of (h, bt) \<Rightarrow>
        let t = GetBreachTemplate bt in
        if Type t = [] \<and> Template t = [] \<and> Templates t = [] then
          (h[b := SetRemediator r (h ! b)], AddBreach bt b)
        else
          let ctx = newTemplateContext t (h ! b) outputFormat;
              templateStr = selectTemplateStr t outputFormat
          in
          if templateStr \<noteq> [] then
            (case EvaluateTemplateStringWithContext eng (h, bt) templateStr ctx of
               (renderedValue, (h1, bt1)) \<Rightarrow>
                 (case new_breach h1 (SetRemediator r (enhancedBreach (h1 ! b) renderedValue)) of
                    (a, h2) \<Rightarrow> (h2, AddBreach bt1 a)))
          else
            let rendered = \<lparr>Type = GetType (h ! b), KeyLabel = BreachGetKeyLabel (h ! b),
                            Key = BreachGetKey (h ! b),
                            ValueLabel = BreachGetValueLabel (h ! b),
                            Value = BreachGetValue (h ! b),
                            Template = [], Templates = [], Context = []\<rparr> :: 'c BreachTemplate
            in
            (case renderField eng ctx (KeyLabel t) (KeyLabel rendered, (h, bt)) of
               (keyLabel, w1) \<Rightarrow>
            (case renderField eng ctx (Key t) (Key rendered, w1) of
               (key, w2) \<Rightarrow>
            (case renderField eng ctx (ValueLabel t) (ValueLabel rendered, w2) of
               (valueLabel, w3) \<Rightarrow>
            (case renderField eng ctx (Value t) (Value rendered, w3) of
               (val, (h4, bt4)) \<Rightarrow>
                 let breachToAdd = legacyBreach
                       (rendered\<lparr>KeyLabel := keyLabel, Key := key,
                                 ValueLabel := valueLabel, Value := val\<rparr>) (h4 ! b)
                 in (h4[b := SetRemediator r breachToAdd], AddBreach bt4 b))))))"

text \<open>\<^verbatim>\<open>EvaluateTemplate\<close>: the \<^verbatim>\<open>pretty\<close> output format.\<close>

definition EvaluateTemplate ::
  "('r, 'c) engine \<Rightarrow> ('r, 'c) world \<Rightarrow> addr \<Rightarrow> 'r option \<Rightarrow> ('r, 'c) world" where
  "EvaluateTemplate eng w b r = EvaluateTemplateWithContext eng w b r ''pretty''"

section \<open>Values of Go and the standard library\<close>

text \<open>
  \<^verbatim>\<open>text/template\<close> calls the functions of \<^verbatim>\<open>TemplateFuncs\<close> by reflection, with values
  that carry their dynamic type, and the functions with an \<^verbatim>\<open>interface{}\<close> parameter ask
  for that type (a type switch, a type assertion) or for its kind (\<^verbatim>\<open>reflect\<close>).  A value
  is: the nil interface; a \<^verbatim>\<open>bool\<close>; a signed integer of one of the predeclared types; an
  unsigned integer (\<^verbatim>\<open>uint\<close> to \<^verbatim>\<open>uint64\<close>); a finite float; a \<^verbatim>\<open>string\<close>; a slice, an
  array or a map of values; a \<^verbatim>\<open>time.Time\<close>, identified by a number, the reading of the
  clock that made it; a value of a named type over one of the former (a
  \<^verbatim>\<open>time.Duration\<close> is a named \<^verbatim>\<open>int64\<close>, a \<^verbatim>\<open>BreachType\<close> a named \<^verbatim>\<open>string\<close>), which has
  the kind of the value under it and a type of its own; or any other value, opaque and
  identified by a name.  Integers are in the range of their type.
\<close>

datatype ity = TInt | TInt8 | TInt16 | TInt32 | TInt64

datatype val =
    GNil
  | GBool bool
  | GInt ity int
  | GUint nat
  | GFloat rat
  | GString string
  | GSlice "val list"
  | GArray "val list"
  | GMap "(val \<times> val) list"
  | GTime nat
  | GNamed string val
  | GOther string

text \<open>What \<^verbatim>\<open>reflect.ValueOf(v)\<close> shows of the kind and the content: the value under the
  name of a named type.\<close>

definition under :: "val \<Rightarrow> val" where
  "under v = (case v of GNamed name u \<Rightarrow> u | u \<Rightarrow> u)"

text \<open>
  A call ends in one of three ways.  The function returns a value.  The function panics;
  \<^verbatim>\<open>text/template\<close> recovers the panic and ends the execution with an error.  Or
  \<^verbatim>\<open>text/template\<close> refuses the call before the function runs, the number or the types of
  the arguments not being those of its signature, and ends the execution with an error.
\<close>

datatype outcome = Returned val | Panicked string | Refused

text \<open>
  The functions of Go's standard library that the table uses, each a function of its
  arguments: parameters of the model.  \<^verbatim>\<open>strings.Repeat\<close> panics on some counts (the left
  injection is the text of the panic).  A regular expression is given by its pattern:
  \<^verbatim>\<open>regexp_Compile\<close> tells whether the pattern compiles, \<^verbatim>\<open>regexp_MatchString\<close> is the
  first result of \<^verbatim>\<open>regexp.MatchString\<close>, and \<^verbatim>\<open>regexp_ReplaceAllString\<close> and
  \<^verbatim>\<open>regexp_FindString\<close> take the pattern of the compiled expression first.
  \<^verbatim>\<open>time_Format\<close> is the method \<^verbatim>\<open>Format\<close> of a \<^verbatim>\<open>time.Time\<close> and \<^verbatim>\<open>time_String\<close> the
  method \<^verbatim>\<open>String\<close> of a \<^verbatim>\<open>time.Duration\<close>.  \<^verbatim>\<open>time.Now\<close> is not among them: it reads the
  clock.
\<close>

record go =
  fmt_Sprintf :: "string \<Rightarrow> val list \<Rightarrow> string"
  strings_Split :: "string \<Rightarrow> string \<Rightarrow> string list"
  strings_ReplaceAll :: "string \<Rightarrow> string \<Rightarrow> string \<Rightarrow> string"
  strings_TrimSpace :: "string \<Rightarrow> string"
  strings_TrimLeft :: "string \<Rightarrow> string \<Rightarrow> string"
  strings_TrimRight :: "string \<Rightarrow> string \<Rightarrow> string"
  strings_ToUpper :: "string \<Rightarrow> string"
  strings_ToLower :: "string \<Rightarrow> string"
  strings_Title :: "string \<Rightarrow> string"
  strings_Repeat :: "string \<Rightarrow> int \<Rightarrow> string + string"
  strings_Contains :: "string \<Rightarrow> string \<Rightarrow> bool"
  strings_HasPrefix :: "string \<Rightarrow> string \<Rightarrow> bool"
  strings_HasSuffix :: "string \<Rightarrow> string \<Rightarrow> bool"
  strings_Compare :: "string \<Rightarrow> string \<Rightarrow> int"
  reflect_DeepEqual :: "val \<Rightarrow> val \<Rightarrow> bool"
  regexp_MatchString :: "string \<Rightarrow> string \<Rightarrow> bool"
  regexp_Compile :: "string \<Rightarrow> bool"
  regexp_ReplaceAllString :: "string \<Rightarrow> string \<Rightarrow> string \<Rightarrow> string"
  regexp_FindString :: "string \<Rightarrow> string \<Rightarrow> string"
  time_Format :: "nat \<Rightarrow> string \<Rightarrow> string"
  time_String :: "int \<Rightarrow> string"

subsection \<open>Signatures\<close>

text \<open>The parameter types of the table: \<^verbatim>\<open>int\<close>, \<^verbatim>\<open>int64\<close>, \<^verbatim>\<open>string\<close>, \<^verbatim>\<open>bool\<close>,
  \<^verbatim>\<open>time.Time\<close>, \<^verbatim>\<open>time.Duration\<close> and \<^verbatim>\<open>interface{}\<close>, each as the reading of an argument
  of that type.\<close>

definition asInt :: "val \<Rightarrow> int option" where
  "asInt v = (case v of GInt TInt n \<Rightarrow> Some n | _ \<Rightarrow> None)"

definition asInt64 :: "val \<Rightarrow> int option" where
  "asInt64 v = (case v of GInt TInt64 n \<Rightarrow> Some n | _ \<Rightarrow> None)"

definition asString :: "val \<Rightarrow> string option" where
  "asString v = (case v of GString s \<Rightarrow> Some s | _ \<Rightarrow> None)"

definition asBool :: "val \<Rightarrow> bool option" where
  "asBool v = (case v of GBool b \<Rightarrow> Some b | _ \<Rightarrow> None)"

definition asTime :: "val \<Rightarrow> nat option" where
  "asTime v = (case v of GTime t \<Rightarrow> Some t | _ \<Rightarrow> None)"

definition asDuration :: "val \<Rightarrow> int option" where
  "asDuration v =
     (case v of
        GNamed name (GInt TInt64 d) \<Rightarrow> if name = ''time.Duration'' then Some d else None
      | _ \<Rightarrow> None)"

definition asAny :: "val \<Rightarrow> val option" where
  "asAny v = Some v"

text \<open>A function of no, one, two or three parameters, applied to the list of arguments of
  a call.\<close>

definition call0 :: "outcome \<Rightarrow> val list \<Rightarrow> outcome" where
  "call0 f args = (case args of [] \<Rightarrow> f | _ \<Rightarrow> Refused)"

definition call1 :: "(val \<Rightarrow> 'a option) \<Rightarrow> ('a \<Rightarrow> outcome) \<Rightarrow> val list \<Rightarrow> outcome" where
  "call1 pa f args =
     (case args of
        [a] \<Rightarrow> (case pa a of Some x \<Rightarrow> f x | None \<Rightarrow> Refused)
      | _ \<Rightarrow> Refused)"

definition call2 ::
  "(val \<Rightarrow> 'a option) \<Rightarrow> (val \<Rightarrow> 'b option) \<Rightarrow> ('a \<Rightarrow> 'b \<Rightarrow> outcome) \<Rightarrow>
   val list \<Rightarrow> outcome" where
  "call2 pa pb f args =
     (case args of
        [a, b] \<Rightarrow> (case (pa a, pb b) of (Some x, Some y) \<Rightarrow> f x y | _ \<Rightarrow> Refused)
      | _ \<Rightarrow> Refused)"

definition call3 ::
  "(val \<Rightarrow> 'a option) \<Rightarrow> (val \<Rightarrow> 'b option) \<Rightarrow> (val \<Rightarrow> 'c option) \<Rightarrow>
   ('a \<Rightarrow> 'b \<Rightarrow> 'c \<Rightarrow> outcome) \<Rightarrow> val list \<Rightarrow> outcome" where
  "call3 pa pb pc f args =
     (case args of
        [a, b, c] \<Rightarrow>
          (case (pa a, pb b, pc c) of (Some x, Some y, Some z) \<Rightarrow> f x y z | _ \<Rightarrow> Refused)
      | _ \<Rightarrow> Refused)"

section \<open>Function library (TemplateFuncs)\<close>

text \<open>
  A Go slice expression with a bound out of range panics at run time.  The functions of
  the library that slice a string return \<open>panic + string\<close>.  Strings are byte strings and
  \<^verbatim>\<open>len\<close> counts bytes, as \<^const>\<open>length\<close> does on \<^typ>\<open>string\<close>.  The \<^verbatim>\<open>length\<close> argument is
  a Go \<^verbatim>\<open>int\<close>; it is only compared and, when above 3, decreased by 3, so nothing wraps
  and it is an \<^typ>\<open>int\<close> here.
\<close>

datatype panic = SliceBoundsOutOfRange

text \<open>\<^verbatim>\<open>s[:n]\<close>\<close>

definition slice_to :: "string \<Rightarrow> int \<Rightarrow> panic + string" where
  "slice_to s n =
     (if 0 \<le> n \<and> n \<le> int (length s) then Inr (take (nat n) s)
      else Inl SliceBoundsOutOfRange)"

text \<open>\<^verbatim>\<open>"truncate": func(length int, s string) string\<close>\<close>

definition truncate :: "int \<Rightarrow> string \<Rightarrow> panic + string" where
  "truncate len s =
     (if int (length s) \<le> len then Inr s
      else if len \<le> 3 then slice_to s len
      else (case slice_to s (len - 3) of
              Inl p \<Rightarrow> Inl p
            | Inr t \<Rightarrow> Inr (t @ ''...'')))"

text \<open>\<^verbatim>\<open>"ellipsis": func(length int, s string) string\<close>; the suffix is the string literal
  of the source file, byte for byte (seven bytes: the UTF-8 of U+00E2, U+20AC, U+00A6).\<close>

definition ellipsis :: "int \<Rightarrow> string \<Rightarrow> panic + string" where
  "ellipsis len s =
     (if int (length s) \<le> len then Inr s
      else (case slice_to s len of
              Inl p \<Rightarrow> Inl p
            | Inr t \<Rightarrow>
                Inr (t @ [CHR 0xC3, CHR 0xA2, CHR 0xE2, CHR 0x82, CHR 0xAC, CHR 0xC2, CHR 0xA6])))"

text \<open>\<^verbatim>\<open>"pluralize": func(count int, singular, plural string) string\<close>\<close>

definition pluralize :: "int \<Rightarrow> string \<Rightarrow> string \<Rightarrow> string" where
  "pluralize count singular plural = (if count = 1 then singular else plural)"

text \<open>\<^verbatim>\<open>"div"\<close> and \<^verbatim>\<open>"mod"\<close> on Go's 64-bit \<^verbatim>\<open>int\<close>: the quotient truncates towards zero
  and wraps (the one overflow is the least value divided by \<open>-1\<close>).\<close>

definition int64 :: "int \<Rightarrow> int" where
  "int64 x = (x + 2 ^ 63) mod 2 ^ 64 - 2 ^ 63"

definition div_f :: "int \<Rightarrow> int \<Rightarrow> int" where
  "div_f a b = (if b = 0 then 0 else int64 (a sdiv b))"

definition mod_f :: "int \<Rightarrow> int \<Rightarrow> int" where
  "mod_f a b = (if b = 0 then 0 else a smod b)"

text \<open>\<^verbatim>\<open>"slice": func(start, end int, v interface{}) interface{}\<close> on a value that is a
  slice.\<close>

definition slice_f :: "int \<Rightarrow> int \<Rightarrow> 'a list \<Rightarrow> 'a list" where
  "slice_f start end v =
     (let start' = (if start < 0 then 0 else start);
          end' = (if end > int (length v) then int (length v) else end)
      in if start' \<ge> end' then []
         else take (nat (end' - start')) (drop (nat start') v))"

subsection \<open>Numbers as text\<close>

text \<open>\<^verbatim>\<open>strconv.FormatInt(n, 10)\<close>: the decimal digits, with a minus sign for a negative
  number.\<close>

definition digitByte :: "nat \<Rightarrow> char" where
  "digitByte d = ''0123456789'' ! d"

fun FormatNat :: "nat \<Rightarrow> string" where
  "FormatNat n = (if n < 10 then [digitByte n] else FormatNat (n div 10) @ [digitByte (n mod 10)])"

declare FormatNat.simps [simp del]

definition FormatInt :: "int \<Rightarrow> string" where
  "FormatInt n = (if n < 0 then CHR ''-'' # FormatNat (nat (- n)) else FormatNat (nat n))"

text \<open>
  Go's \<^verbatim>\<open>float64\<close>.  A finite float is modelled by the rational number it denotes, and
  \<open>float64 x\<close> is the float nearest to the rational \<open>x\<close>, ties to the even significand
  (IEEE 754 binary64, 53 significant bits): the conversion \<^verbatim>\<open>float64(n)\<close> of an integer
  and the rounding of the exact quotient in \<^verbatim>\<open>value /= 1000\<close>.  The exponent is read off
  the integer part, so the model is the float arithmetic for \<open>1 \<le> x < 2 ^ 1024\<close>; every
  value \<^verbatim>\<open>humanizeNumber\<close> rounds lies there.  \<open>rne\<close> rounds to the nearest integer,
  ties to even.
\<close>

definition rne :: "rat \<Rightarrow> int" where
  "rne x = (let f = \<lfloor>x\<rfloor>; d = x - of_int f in
            if d < 1 / 2 then f
            else if 1 / 2 < d then f + 1
            else if even f then f else f + 1)"

definition exponent :: "rat \<Rightarrow> nat" where
  "exponent x = floorlog 2 (nat \<lfloor>x\<rfloor>) - 1"

definition float64 :: "rat \<Rightarrow> rat" where
  "float64 x = of_int (rne (x * 2 ^ 52 / 2 ^ exponent x)) * 2 ^ exponent x / 2 ^ 52"

text \<open>\<^verbatim>\<open>int64(value)\<close> of a float: truncation towards zero (the values converted here are
  below \<open>2 ^ 63\<close>).\<close>

definition int64_of_float :: "rat \<Rightarrow> int" where
  "int64_of_float v = (if 0 \<le> v then \<lfloor>v\<rfloor> else \<lceil>v\<rceil>)"

text \<open>\<^verbatim>\<open>fmt.Sprintf("%.<prec>f", x)\<close> of a finite float: the exact decimal expansion
  rounded to \<open>prec\<close> decimals, ties to even; no decimal point when \<open>prec\<close> is 0.\<close>

definition zeroPad :: "nat \<Rightarrow> string \<Rightarrow> string" where
  "zeroPad w s = replicate (w - length s) (CHR ''0'') @ s"

definition sprintf_f :: "nat \<Rightarrow> rat \<Rightarrow> string" where
  "sprintf_f prec x =
     (let m = nat (rne (\<bar>x\<bar> * 10 ^ prec)) in
      (if x < 0 then ''-'' else []) @ FormatNat (m div 10 ^ prec) @
      (if prec = 0 then [] else CHR ''.'' # zeroPad prec (FormatNat (m mod 10 ^ prec))))"

subsection \<open>humanizeNumber\<close>

definition suffixes :: "string list" where
  "suffixes = ['''', ''K'', ''M'', ''B'', ''T'']"

text \<open>The loop \<^verbatim>\<open>for value >= 1000 && suffixIndex < len(suffixes)-1\<close>.\<close>

function scale :: "rat \<Rightarrow> nat \<Rightarrow> rat \<times> nat" where
  "scale val suffixIndex =
     (if 1000 \<le> val \<and> suffixIndex < 4 then scale (float64 (val / 1000)) (suffixIndex + 1)
      else (val, suffixIndex))"
  by pat_completeness auto
termination
  by (relation "measure (\<lambda>(v, i). 4 - i)") auto

declare scale.simps [simp del]

text \<open>\<^verbatim>\<open>func humanizeNumber(n int64) string\<close>; \<open>n\<close> is an \<^verbatim>\<open>int64\<close>, on which the function
  does no arithmetic, so it is an \<^typ>\<open>int\<close> in the range of \<^verbatim>\<open>int64\<close>.\<close>

definition humanizeNumber :: "int \<Rightarrow> string" where
  "humanizeNumber n =
     (if n < 1000 then FormatInt n
      else (let r = scale (float64 (of_int n)) 0; val = fst r; suffixIndex = snd r in
            if val = float64 (of_int (int64_of_float val))
            then sprintf_f 0 val @ suffixes ! suffixIndex
            else sprintf_f 1 val @ suffixes ! suffixIndex))"

subsection \<open>humanizeString\<close>

text \<open>
  Go's \<^verbatim>\<open>strings\<close> functions work on the runes of a UTF-8 string.  The model is theirs on
  ASCII strings: upper and lower case of a byte, white space (tab, line feed, vertical
  tab, form feed, carriage return, space), \<^verbatim>\<open>strings.FieldsFunc\<close> (the maximal runs of
  bytes that the predicate rejects), \<^verbatim>\<open>strings.Fields\<close> (the same with white space),
  \<^verbatim>\<open>strings.ReplaceAll\<close> of one byte by another, and \<^verbatim>\<open>strings.Join\<close>.
\<close>

fun toUpperByte :: "char \<Rightarrow> char" where
  "toUpperByte (Char b0 b1 b2 b3 b4 b5 b6 b7) =
     (let n = (of_char (Char b0 b1 b2 b3 b4 b5 b6 b7) :: nat) in
      if 97 \<le> n \<and> n \<le> 122 then Char b0 b1 b2 b3 b4 False b6 b7
      else Char b0 b1 b2 b3 b4 b5 b6 b7)"

fun toLowerByte :: "char \<Rightarrow> char" where
  "toLowerByte (Char b0 b1 b2 b3 b4 b5 b6 b7) =
     (let n = (of_char (Char b0 b1 b2 b3 b4 b5 b6 b7) :: nat) in
      if 65 \<le> n \<and> n \<le> 90 then Char b0 b1 b2 b3 b4 True b6 b7
      else Char b0 b1 b2 b3 b4 b5 b6 b7)"

definition isSpace :: "char \<Rightarrow> bool" where
  "isSpace c = (c \<in> set [CHR 0x09, CHR 0x0A, CHR 0x0B, CHR 0x0C, CHR 0x0D, CHR '' ''])"

fun splitRuns :: "(char \<Rightarrow> bool) \<Rightarrow> string \<Rightarrow> string \<Rightarrow> string list" where
  "splitRuns f cur [] = (if cur = [] then [] else [cur])"
| "splitRuns f cur (c # s) =
     (if f c then (if cur = [] then splitRuns f [] s else cur # splitRuns f [] s)
      else splitRuns f (cur @ [c]) s)"

definition FieldsFunc :: "string \<Rightarrow> (char \<Rightarrow> bool) \<Rightarrow> string list" where
  "FieldsFunc s f = splitRuns f [] s"

definition Fields :: "string \<Rightarrow> string list" where
  "Fields s = FieldsFunc s isSpace"

definition ReplaceAllByte :: "string \<Rightarrow> char \<Rightarrow> char \<Rightarrow> string" where
  "ReplaceAllByte s old new = map (\<lambda>c. if c = old then new else c) s"

fun Join :: "string list \<Rightarrow> string \<Rightarrow> string" where
  "Join [] sep = []"
| "Join [w] sep = w"
| "Join (w # ws) sep = w @ sep @ Join ws sep"

text \<open>The body of the loop over \<^verbatim>\<open>words\<close>:
  \<^verbatim>\<open>strings.ToUpper(string(word[0])) + strings.ToLower(word[1:])\<close> for a non-empty word.\<close>

definition capitalizeWord :: "string \<Rightarrow> string" where
  "capitalizeWord word =
     (case word of [] \<Rightarrow> [] | c # cs \<Rightarrow> toUpperByte c # map toLowerByte cs)"

text \<open>\<^verbatim>\<open>func humanizeString(s string) string\<close>\<close>

definition humanizeString :: "string \<Rightarrow> string" where
  "humanizeString s =
     Join (map capitalizeWord
             (Fields (ReplaceAllByte (ReplaceAllByte s (CHR ''_'') (CHR '' ''))
                        (CHR ''-'') (CHR '' ''))))
          '' ''"

subsection \<open>humanize\<close>

text \<open>
  The argument of \<^verbatim>\<open>humanize\<close> is an \<^verbatim>\<open>interface{}\<close>; the type switch tells four kinds
  apart: \<^verbatim>\<open>int\<close>, \<^verbatim>\<open>int32\<close>, \<^verbatim>\<open>int64\<close> (read as an \<^verbatim>\<open>int64\<close>); \<^verbatim>\<open>float32\<close>,
  \<^verbatim>\<open>float64\<close> (read as a \<^verbatim>\<open>float64\<close>, finite here); \<^verbatim>\<open>string\<close>; and anything else,
  which is printed with \<^verbatim>\<open>%v\<close> and is represented by that printed form.
\<close>

datatype gval = VInt int | VFloat rat | VString string | VOther string

definition humanize :: "gval \<Rightarrow> string" where
  "humanize v =
     (case v of
        VInt num \<Rightarrow> humanizeNumber num
      | VFloat num \<Rightarrow> sprintf_f 2 num
      | VString val \<Rightarrow> humanizeString val
      | VOther str \<Rightarrow> str)"

subsection \<open>Results\<close>

text \<open>Results: a \<^verbatim>\<open>string\<close>, a \<^verbatim>\<open>bool\<close>, an \<^verbatim>\<open>int\<close>; a string or the panic of a slice
  expression; a string or a panic with its text.\<close>

definition retString :: "string \<Rightarrow> outcome" where
  "retString s = Returned (GString s)"

definition retBool :: "bool \<Rightarrow> outcome" where
  "retBool b = Returned (GBool b)"

definition retInt :: "int \<Rightarrow> outcome" where
  "retInt n = Returned (GInt TInt n)"

definition retSliced :: "panic + string \<Rightarrow> outcome" where
  "retSliced r =
     (case r of
        Inl SliceBoundsOutOfRange \<Rightarrow> Panicked ''slice bounds out of range''
      | Inr s \<Rightarrow> Returned (GString s))"

definition retStringOrPanic :: "string + string \<Rightarrow> outcome" where
  "retStringOrPanic r = (case r of Inl e \<Rightarrow> Panicked e | Inr s \<Rightarrow> Returned (GString s))"

subsection \<open>The function literals of the table\<close>

text \<open>\<^verbatim>\<open>"join": func(sep string, elems interface{}) string\<close>\<close>

definition join_f :: "go \<Rightarrow> string \<Rightarrow> val \<Rightarrow> string" where
  "join_f go sep elems =
     (case elems of
        GNil \<Rightarrow> []
      | _ \<Rightarrow>
          (case under elems of
             GSlice rv \<Rightarrow> Join (map (\<lambda>x. fmt_Sprintf go ''%v'' [x]) rv) sep
           | _ \<Rightarrow> fmt_Sprintf go ''%v'' [elems]))"

text \<open>\<^verbatim>\<open>"humanize"\<close> on a value: the type switch names the types \<^verbatim>\<open>int\<close>, \<^verbatim>\<open>int32\<close>,
  \<^verbatim>\<open>int64\<close>, the floats and \<^verbatim>\<open>string\<close>; a value of any other type, a named one too, is
  printed with \<^verbatim>\<open>%v\<close>.\<close>

definition humanize_f :: "go \<Rightarrow> val \<Rightarrow> string" where
  "humanize_f go v =
     humanize
       (case v of
          GInt ty num \<Rightarrow>
            if ty = TInt \<or> ty = TInt32 \<or> ty = TInt64 then VInt num
            else VOther (fmt_Sprintf go ''%v'' [v])
        | GFloat num \<Rightarrow> VFloat num
        | GString val \<Rightarrow> VString val
        | _ \<Rightarrow> VOther (fmt_Sprintf go ''%v'' [v]))"

text \<open>\<^verbatim>\<open>func humanizeBytes(size int64) string\<close>.  The loop
  \<^verbatim>\<open>for n := size / unit; n >= unit; n /= unit\<close> divides a positive \<open>n\<close>, where Go's
  quotient is \<open>div\<close>; \<open>sz\<close>, \<open>dv\<close> and \<open>ex\<close> are the variables \<^verbatim>\<open>size\<close>, \<^verbatim>\<open>div\<close> and
  \<^verbatim>\<open>exp\<close>.  The index \<^verbatim>\<open>exp+1\<close> into \<^verbatim>\<open>units\<close>
  panics when out of range.\<close>

function bytesLoop :: "int \<Rightarrow> int \<Rightarrow> nat \<Rightarrow> int \<times> nat" where
  "bytesLoop n dv ex =
     (if n \<ge> 1024 then bytesLoop (n div 1024) (int64 (dv * 1024)) (ex + 1) else (dv, ex))"
  by pat_completeness auto
termination
  by (relation "measure (\<lambda>(n, dv, ex). nat n)") auto

declare bytesLoop.simps [simp del]

definition units :: "string list" where
  "units = [''B'', ''KB'', ''MB'', ''GB'', ''TB'', ''PB'', ''EB'']"

definition humanizeBytes :: "int \<Rightarrow> string + string" where
  "humanizeBytes sz =
     (if sz < 1024 then Inr (FormatInt sz @ '' B'')
      else (let r = bytesLoop (sz div 1024) 1024 0; dv = fst r; ex = snd r in
            if ex + 1 < length units
            then Inr (sprintf_f 1 (float64 (float64 (of_int sz) / float64 (of_int dv)))
                        @ '' '' @ units ! (ex + 1))
            else Inl ''index out of range''))"

text \<open>\<^verbatim>\<open>"len": func(v interface{}) int\<close>\<close>

definition len_f :: "val \<Rightarrow> int" where
  "len_f v =
     (case v of
        GNil \<Rightarrow> 0
      | _ \<Rightarrow>
          (case under v of
             GArray rv \<Rightarrow> int (length rv)
           | GSlice rv \<Rightarrow> int (length rv)
           | GMap rv \<Rightarrow> int (length rv)
           | GString rv \<Rightarrow> int (length rv)
           | _ \<Rightarrow> 0))"

text \<open>\<^verbatim>\<open>"first"\<close> and \<^verbatim>\<open>"last": func(v interface{}) interface{}\<close>\<close>

definition first_f :: "val \<Rightarrow> val" where
  "first_f v =
     (case under v of
        GSlice rv \<Rightarrow> if length rv > 0 then rv ! 0 else GNil
      | _ \<Rightarrow> GNil)"

definition last_f :: "val \<Rightarrow> val" where
  "last_f v =
     (case under v of
        GSlice rv \<Rightarrow> if length rv > 0 then rv ! (length rv - 1) else GNil
      | _ \<Rightarrow> GNil)"

text \<open>\<^verbatim>\<open>"slice": func(start, end int, v interface{}) interface{}\<close>: a slice of the type of
  \<open>v\<close> when \<open>v\<close> is a slice, \<open>v\<close> itself otherwise.\<close>

definition slice_v :: "int \<Rightarrow> int \<Rightarrow> val \<Rightarrow> val" where
  "slice_v start end v =
     (case v of
        GSlice rv \<Rightarrow> GSlice (slice_f start end rv)
      | GNamed name (GSlice rv) \<Rightarrow> GNamed name (GSlice (slice_f start end rv))
      | _ \<Rightarrow> v)"

text \<open>\<^verbatim>\<open>func compareValues(a, b interface{}) int\<close>: by kind, both signed, both unsigned,
  both floats, both strings, and the printed forms otherwise.\<close>

definition threeWay :: "'a::linorder \<Rightarrow> 'a \<Rightarrow> int" where
  "threeWay x y = (if x < y then - 1 else if x > y then 1 else 0)"

definition compareValues :: "go \<Rightarrow> val \<Rightarrow> val \<Rightarrow> int" where
  "compareValues go a b =
     (case (under a, under b) of
        (GInt ta ai, GInt tb bi) \<Rightarrow> threeWay ai bi
      | (GUint au, GUint bu) \<Rightarrow> threeWay au bu
      | (GFloat af, GFloat bf) \<Rightarrow> threeWay af bf
      | (GString as, GString bs) \<Rightarrow> strings_Compare go as bs
      | _ \<Rightarrow> strings_Compare go (fmt_Sprintf go ''%v'' [a]) (fmt_Sprintf go ''%v'' [b]))"

text \<open>\<^verbatim>\<open>"regexReplace"\<close> and \<^verbatim>\<open>"regexFind"\<close>\<close>

definition regexReplace :: "go \<Rightarrow> string \<Rightarrow> string \<Rightarrow> string \<Rightarrow> string" where
  "regexReplace go pattern replacement s =
     (if \<not> regexp_Compile go pattern then s
      else regexp_ReplaceAllString go pattern s replacement)"

definition regexFind :: "go \<Rightarrow> string \<Rightarrow> string \<Rightarrow> string" where
  "regexFind go pattern s =
     (if \<not> regexp_Compile go pattern then [] else regexp_FindString go pattern s)"

text \<open>\<^verbatim>\<open>func colorizeText(color, text string) string\<close>; \<^verbatim>\<open>\033\<close> is the byte 0x1B.\<close>

definition colors :: "(string \<times> string) list" where
  "colors =
     [(''black'', CHR 0x1B # ''[30m''), (''red'', CHR 0x1B # ''[31m''),
      (''green'', CHR 0x1B # ''[32m''), (''yellow'', CHR 0x1B # ''[33m''),
      (''blue'', CHR 0x1B # ''[34m''), (''magenta'', CHR 0x1B # ''[35m''),
      (''cyan'', CHR 0x1B # ''[36m''), (''white'', CHR 0x1B # ''[37m''),
      (''gray'', CHR 0x1B # ''[90m''), (''grey'', CHR 0x1B # ''[90m''),
      (''bright-red'', CHR 0x1B # ''[91m''), (''bright-green'', CHR 0x1B # ''[92m''),
      (''bright-yellow'', CHR 0x1B # ''[93m''), (''bright-blue'', CHR 0x1B # ''[94m''),
      (''bright-magenta'', CHR 0x1B # ''[95m''), (''bright-cyan'', CHR 0x1B # ''[96m''),
      (''bright-white'', CHR 0x1B # ''[97m''),
      (''bg-red'', CHR 0x1B # ''[41m''), (''bg-green'', CHR 0x1B # ''[42m''),
      (''bg-yellow'', CHR 0x1B # ''[43m''), (''bg-blue'', CHR 0x1B # ''[44m''),
      (''bg-magenta'', CHR 0x1B # ''[45m''), (''bg-cyan'', CHR 0x1B # ''[46m''),
      (''bg-white'', CHR 0x1B # ''[47m'')]"

definition colorizeText :: "go \<Rightarrow> string \<Rightarrow> string \<Rightarrow> string" where
  "colorizeText go color text =
     (case map_of colors (strings_ToLower go color) of
        Some colorCode \<Rightarrow> colorCode @ text @ CHR 0x1B # ''[0m''
      | None \<Rightarrow> text)"

text \<open>\<^verbatim>\<open>"default": func(def, val interface{}) interface{}\<close>.  The assertion
  \<^verbatim>\<open>val.(string)\<close> is reached by every value of kind string and panics on one whose type
  is not \<^verbatim>\<open>string\<close>.\<close>

definition default_f :: "val \<Rightarrow> val \<Rightarrow> outcome" where
  "default_f def val =
     (case val of
        GNil \<Rightarrow> Returned def
      | GString s \<Rightarrow> Returned (if s = [] then def else val)
      | GNamed name (GString s) \<Rightarrow> Panicked ''interface conversion''
      | _ \<Rightarrow> Returned val)"

text \<open>\<^verbatim>\<open>"empty": func(val interface{}) bool\<close>\<close>

definition empty_f :: "val \<Rightarrow> bool" where
  "empty_f val =
     (case val of
        GNil \<Rightarrow> True
      | _ \<Rightarrow>
          (case under val of
             GString v \<Rightarrow> length v = 0
           | GArray v \<Rightarrow> length v = 0
           | GSlice v \<Rightarrow> length v = 0
           | GMap v \<Rightarrow> length v = 0
           | GBool v \<Rightarrow> \<not> v
           | GInt ty v \<Rightarrow> v = 0
           | GUint v \<Rightarrow> v = 0
           | GFloat v \<Rightarrow> v = 0
           | _ \<Rightarrow> False))"

subsection \<open>The table\<close>

text \<open>
  A Go function runs at some moment and may read the clock: an entry of the table is a
  function of the arguments of the call and of the reading \<^verbatim>\<open>time.Now()\<close> would give
  during the call.  \<open>fn\<close> makes the entry of a function whose body does not read the
  clock, which is every function of the table but \<^verbatim>\<open>now\<close>.
\<close>

type_synonym gofunc = "val list \<Rightarrow> nat \<Rightarrow> outcome"

definition fn :: "(val list \<Rightarrow> outcome) \<Rightarrow> gofunc" where
  "fn f args clock = f args"

text \<open>\<^verbatim>\<open>var TemplateFuncs = template.FuncMap{...}\<close>, entry by entry in the order of the
  source.  \<^verbatim>\<open>fmt.Sprintf\<close> is variadic after its format.\<close>

definition TemplateFuncs :: "go \<Rightarrow> string \<rightharpoonup> gofunc" where
  "TemplateFuncs go = map_of
     [(''printf'', fn (\<lambda>args. case args of
                        GString format # a \<Rightarrow> retString (fmt_Sprintf go format a)
                      | _ \<Rightarrow> Refused)),
      (''join'', fn (call2 asString asAny (\<lambda>sep elems. retString (join_f go sep elems)))),
      (''split'', fn (call2 asString asString
         (\<lambda>s sep. Returned (GSlice (map GString (strings_Split go s sep)))))),
      (''replace'', fn (call3 asString asString asString
         (\<lambda>s old new. retString (strings_ReplaceAll go s old new)))),
      (''trim'', fn (call1 asString (\<lambda>s. retString (strings_TrimSpace go s)))),
      (''trimLeft'', fn (call2 asString asString
         (\<lambda>s cutset. retString (strings_TrimLeft go s cutset)))),
      (''trimRight'', fn (call2 asString asString
         (\<lambda>s cutset. retString (strings_TrimRight go s cutset)))),
      (''upper'', fn (call1 asString (\<lambda>s. retString (strings_ToUpper go s)))),
      (''lower'', fn (call1 asString (\<lambda>s. retString (strings_ToLower go s)))),
      (''title'', fn (call1 asString (\<lambda>s. retString (strings_Title go s)))),
      (''repeat'', fn (call2 asString asInt
         (\<lambda>s count. retStringOrPanic (strings_Repeat go s count)))),
      (''contains'', fn (call2 asString asString
         (\<lambda>s substr. retBool (strings_Contains go s substr)))),
      (''hasPrefix'', fn (call2 asString asString
         (\<lambda>s prefix. retBool (strings_HasPrefix go s prefix)))),
      (''hasSuffix'', fn (call2 asString asString
         (\<lambda>s suffix. retBool (strings_HasSuffix go s suffix)))),
      (''truncate'', fn (call2 asInt asString (\<lambda>length s. retSliced (truncate length s)))),
      (''ellipsis'', fn (call2 asInt asString (\<lambda>length s. retSliced (ellipsis length s)))),
      (''pad'', fn (call2 asInt asString
         (\<lambda>width s. retString (fmt_Sprintf go ''%-*s'' [GInt TInt width, GString s])))),
      (''padLeft'', fn (call2 asInt asString
         (\<lambda>width s. retString (fmt_Sprintf go ''%*s'' [GInt TInt width, GString s])))),
      (''pluralize'', fn (call3 asInt asString asString
         (\<lambda>count singular plural. retString (pluralize count singular plural)))),
      (''humanize'', fn (call1 asAny (\<lambda>v. retString (humanize_f go v)))),
      (''bytes'', fn (call1 asInt64 (\<lambda>sz. retStringOrPanic (humanizeBytes sz)))),
      (''len'', fn (call1 asAny (\<lambda>v. retInt (len_f v)))),
      (''first'', fn (call1 asAny (\<lambda>v. Returned (first_f v)))),
      (''last'', fn (call1 asAny (\<lambda>v. Returned (last_f v)))),
      (''slice'', fn (call3 asInt asInt asAny (\<lambda>start end v. Returned (slice_v start end v)))),
      (''eq'', fn (call2 asAny asAny (\<lambda>a b. retBool (reflect_DeepEqual go a b)))),
      (''ne'', fn (call2 asAny asAny (\<lambda>a b. retBool (\<not> reflect_DeepEqual go a b)))),
      (''lt'', fn (call2 asAny asAny (\<lambda>a b. retBool (compareValues go a b < 0)))),
      (''le'', fn (call2 asAny asAny (\<lambda>a b. retBool (compareValues go a b \<le> 0)))),
      (''gt'', fn (call2 asAny asAny (\<lambda>a b. retBool (compareValues go a b > 0)))),
      (''ge'', fn (call2 asAny asAny (\<lambda>a b. retBool (compareValues go a b \<ge> 0)))),
      (''and'', fn (call2 asBool asBool (\<lambda>a b. retBool (a \<and> b)))),
      (''or'', fn (call2 asBool asBool (\<lambda>a b. retBool (a \<or> b)))),
      (''not'', fn (call1 asBool (\<lambda>a. retBool (\<not> a)))),
      (''regexMatch'', fn (call2 asString asString
         (\<lambda>pattern s. retBool (regexp_MatchString go pattern s)))),
      (''regexReplace'', fn (call3 asString asString asString
         (\<lambda>pattern replacement s. retString (regexReplace go pattern replacement s)))),
      (''regexFind'', fn (call2 asString asString
         (\<lambda>pattern s. retString (regexFind go pattern s)))),
      (''now'', \<lambda>args clock. call0 (Returned (GTime clock)) args),
      (''date'', fn (call2 asString asTime (\<lambda>format t. retString (time_Format go t format)))),
      (''duration'', fn (call1 asDuration (\<lambda>d. retString (time_String go d)))),
      (''colorize'', fn (call2 asString asString
         (\<lambda>color text. retString (colorizeText go color text)))),
      (''bold'', fn (call1 asString
         (\<lambda>text. retString (CHR 0x1B # ''[1m'' @ text @ CHR 0x1B # ''[0m'')))),
      (''italic'', fn (call1 asString
         (\<lambda>text. retString (CHR 0x1B # ''[3m'' @ text @ CHR 0x1B # ''[0m'')))),
      (''underline'', fn (call1 asString
         (\<lambda>text. retString (CHR 0x1B # ''[4m'' @ text @ CHR 0x1B # ''[0m'')))),
      (''default'', fn (call2 asAny asAny default_f)),
      (''empty'', fn (call1 asAny (\<lambda>val. retBool (empty_f val)))),
      (''add'', fn (call2 asInt asInt (\<lambda>a b. retInt (int64 (a + b))))),
      (''sub'', fn (call2 asInt asInt (\<lambda>a b. retInt (int64 (a - b))))),
      (''mul'', fn (call2 asInt asInt (\<lambda>a b. retInt (int64 (a * b))))),
      (''div'', fn (call2 asInt asInt (\<lambda>a b. retInt (div_f a b)))),
      (''mod'', fn (call2 asInt asInt (\<lambda>a b. retInt (mod_f a b)))),
      (''max'', fn (call2 asInt asInt (\<lambda>a b. retInt (if a > b then a else b)))),
      (''min'', fn (call2 asInt asInt (\<lambda>a b. retInt (if a < b then a else b))))]"

subsection \<open>The template library\<close>






section \<open>Observing the output stream\<close>

text \<open>The breach handed to \<^verbatim>\<open>AddBreach\<close> last: the one the renderer emits (a failing
  template adds its synthetic breach before it).\<close>

definition emitted :: "('r, 'c) world \<Rightarrow> 'r Breach" where
  "emitted w = fst w ! last (breaches (snd w))"

section \<open>Notions of the statements\<close>




text \<open>The text a legacy field ends with: the rendering of the field's own template when
  the template has one, the text the breach already had otherwise.\<close>

definition renderedOr ::
  "('r, 'c) engine \<Rightarrow> ('r, 'c) world \<Rightarrow> ('r, 'c) TemplateContext \<Rightarrow> string \<Rightarrow> string \<Rightarrow> string" where
  "renderedOr eng w ctx src cur =
     (if src \<noteq> [] then fst (EvaluateTemplateStringWithContext eng w src ctx) else cur)"







section \<open>Sample inputs\<close>

text \<open>
  An instance of the engine parameter for the examples: it fixes the outcome of
  \<^verbatim>\<open>text/template\<close> on the sources the examples use.  Text without an action is copied to
  the output; \<^verbatim>\<open>{{ .Breach.Value | upper }}\<close> is the upper-cased \<^verbatim>\<open>Value\<close> field, which
  a \<^verbatim>\<open>KeyValuesBreach\<close> does not have; \<^verbatim>\<open>{{ .Breach.Value\<close>, an action that is never
  closed, does not parse; \<^verbatim>\<open>{{ .NoSuchField }}\<close> parses and fails in execution, the context
  having no such field.  Any other source with an action is left unevaluated by this
  instance and answered as an execution error.  The error texts stand for the library's.
\<close>

definition toUpperASCII :: "string \<Rightarrow> string" where
  "toUpperASCII s = map toUpperByte s"

fun hasAction :: "string \<Rightarrow> bool" where
  "hasAction (a # b # s) = ((a = CHR ''{'' \<and> b = CHR ''{'') \<or> hasAction (b # s))"
| "hasAction s = False"

definition sample_engine :: "('r, 'c) engine" where
  "sample_engine src ctx =
     (if src = ''{{ .Breach.Value | upper }}'' then
        (case ctxBreach ctx of
           IsKeyValuesBreach b \<Rightarrow> ExecError ''no field Value''
         | b \<Rightarrow> Rendered (toUpperASCII (BreachGetValue b)))
      else if src = ''{{ .Breach.Value'' then ParseError ''unclosed action''
      else if src = ''{{ .NoSuchField }}'' then ExecError ''no field NoSuchField''
      else if hasAction src then ExecError ''not evaluated''
      else Rendered src)"

definition emptyTemplate :: "nat BreachTemplate" where
  "emptyTemplate = \<lparr>Type = [], KeyLabel = [], Key = [], ValueLabel = [], Value = [],
      Template = [], Templates = [], Context = []\<rparr>"

definition mock :: "nat BreachTemplate \<Rightarrow> nat BreachTemplater" where
  "mock t = \<lparr>template = t, breaches = []\<rparr>"

definition sampleValue :: "nat ValueBreach" where
  "sampleValue =
     \<lparr>vBreachType = [], vCheckType = ''file'', vCheckName = ''security-check'',
      vSeverity = ''high'', vValueLabel = ''file'', vValue = ''fail b'',
      vRemediator = None, vRemediationResult = noRemediationResult\<rparr>"


definition sampleKeyValues :: "nat KeyValuesBreach" where
  "sampleKeyValues =
     \<lparr>kvsBreachType = [], kvsCheckType = ''file'', kvsCheckName = ''file_check'',
      kvsSeverity = ''low'', kvsKeyLabel = ''dir'', kvsKey = ''config_files'',
      kvsValueLabel = ''files'', kvsValues = [''a.yml'', ''b.yml'', ''c.yml''],
      kvsRemediator = None, kvsRemediationResult = noRemediationResult\<rparr>"

definition sampleContext :: "(nat, nat) TemplateContext" where
  "sampleContext = newTemplateContext emptyTemplate (IsValueBreach sampleValue) ''pretty''"

definition valueOnlyTemplate :: "nat BreachTemplate" where
  "valueOnlyTemplate = emptyTemplate\<lparr>Value := ''{{ .Breach.Value | upper }}''\<rparr>"

definition typedValueTemplate :: "nat BreachTemplate" where
  "typedValueTemplate = valueOnlyTemplate\<lparr>Type := BreachTypeValue\<rparr>"

definition richTemplate :: "nat BreachTemplate" where
  "richTemplate = emptyTemplate\<lparr>Template := ''{{ .Breach.Value | upper }}''\<rparr>"

definition formatsAndSingleTemplate :: "nat BreachTemplate" where
  "formatsAndSingleTemplate =
     emptyTemplate\<lparr>Templates := [(''json'', ''as json'')], Template := ''as text''\<rparr>"


section \<open>The evaluator never faults\<close>

lemma eval_string_extends:
  "EvaluateTemplateStringWithContext eng (h, bt) src ctx = (out, (h', bt')) \<Longrightarrow>
     (\<exists>xs. h' = h @ xs) \<and> template bt' = template bt"
  by (auto simp: EvaluateTemplateStringWithContext_def new_breach_def AddBreach_def
           split: tmpl_result.splits)

text \<open>
  C3.  Whatever the source and the context, \<^const>\<open>EvaluateTemplateStringWithContext\<close>
  returns.  When the source does not compile, or compiles and fails in execution, the
  store grows by exactly one object, the synthetic \<^verbatim>\<open>ValueBreach\<close> whose label names
  the failure class and whose value is the error text; exactly that one breach is added
  to the templater; and the result is the source string itself.  When both succeed, the
  result is the rendered text and nothing is added.
\<close>

theorem evaluate_failure_adds_one_breach:
  "(eng src ctx = ParseError e \<longrightarrow>
      EvaluateTemplateStringWithContext eng (h, bt) src ctx
        = (src,
           (h @ [IsValueBreach
                   \<lparr>vBreachType = [], vCheckType = [], vCheckName = [], vSeverity = [],
                    vValueLabel = ''unable to parse breach template'', vValue = e,
                    vRemediator = None, vRemediationResult = \<lparr>Status = [], Messages = []\<rparr>\<rparr>],
            bt\<lparr>breaches := breaches bt @ [length h]\<rparr>)))
   \<and> (eng src ctx = ExecError e \<longrightarrow>
      EvaluateTemplateStringWithContext eng (h, bt) src ctx
        = (src,
           (h @ [IsValueBreach
                   \<lparr>vBreachType = [], vCheckType = [], vCheckName = [], vSeverity = [],
                    vValueLabel = ''unable to render breach template'', vValue = e,
                    vRemediator = None, vRemediationResult = \<lparr>Status = [], Messages = []\<rparr>\<rparr>],
            bt\<lparr>breaches := breaches bt @ [length h]\<rparr>)))
   \<and> (eng src ctx = Rendered out \<longrightarrow>
      EvaluateTemplateStringWithContext eng (h, bt) src ctx = (out, (h, bt)))"
  by (simp add: EvaluateTemplateStringWithContext_def new_breach_def AddBreach_def
        labelledValueBreach_def noRemediationResult_def)

theorem evaluate_failure_adds_one_breach_witness:
  "sample_engine ''{{ .Breach.Value'' sampleContext = ParseError ''unclosed action''
   \<and> EvaluateTemplateStringWithContext sample_engine
        ([IsValueBreach sampleValue], mock emptyTemplate) ''{{ .Breach.Value'' sampleContext
      = (''{{ .Breach.Value'',
         ([IsValueBreach sampleValue,
           IsValueBreach
             \<lparr>vBreachType = [], vCheckType = [], vCheckName = [], vSeverity = [],
              vValueLabel = ''unable to parse breach template'', vValue = ''unclosed action'',
              vRemediator = None, vRemediationResult = \<lparr>Status = [], Messages = []\<rparr>\<rparr>],
          \<lparr>template = emptyTemplate, breaches = [1]\<rparr>))
   \<and> sample_engine ''{{ .NoSuchField }}'' sampleContext = ExecError ''no field NoSuchField''
   \<and> EvaluateTemplateStringWithContext sample_engine
        ([IsValueBreach sampleValue], mock emptyTemplate) ''{{ .NoSuchField }}'' sampleContext
      = (''{{ .NoSuchField }}'',
         ([IsValueBreach sampleValue,
           IsValueBreach
             \<lparr>vBreachType = [], vCheckType = [], vCheckName = [], vSeverity = [],
              vValueLabel = ''unable to render breach template'',
              vValue = ''no field NoSuchField'',
              vRemediator = None, vRemediationResult = \<lparr>Status = [], Messages = []\<rparr>\<rparr>],
          \<lparr>template = emptyTemplate, breaches = [1]\<rparr>))
   \<and> sample_engine ''plain text'' sampleContext = Rendered ''plain text''
   \<and> EvaluateTemplateStringWithContext sample_engine
        ([IsValueBreach sampleValue], mock emptyTemplate) ''plain text'' sampleContext
      = (''plain text'', ([IsValueBreach sampleValue], mock emptyTemplate))"
  using evaluate_failure_adds_one_breach
          [of sample_engine "''{{ .Breach.Value''" sampleContext
              "''unclosed action''" "[IsValueBreach sampleValue]" "mock emptyTemplate"]
        evaluate_failure_adds_one_breach
          [of sample_engine "''{{ .NoSuchField }}''" sampleContext
              "''no field NoSuchField''" "[IsValueBreach sampleValue]" "mock emptyTemplate"]
        evaluate_failure_adds_one_breach
          [of sample_engine "''plain text''" sampleContext _
              "[IsValueBreach sampleValue]" "mock emptyTemplate" "''plain text''"]
  by (simp add: sample_engine_def mock_def)

text \<open>
  C10.  The synthetic breach added for a compile or an execution failure has the failure
  label, the error text, and nothing else: its check name, check type, severity and type
  tag are empty and it has no remediator, whatever breach the context carries.
\<close>

theorem synthetic_breach_has_no_metadata:
  assumes "eng src ctx = ParseError e \<or> eng src ctx = ExecError e"
  shows "emitted (snd (EvaluateTemplateStringWithContext eng (h, bt) src ctx)) =
      IsValueBreach
        \<lparr>vBreachType = [], vCheckType = [], vCheckName = [], vSeverity = [],
         vValueLabel = (if eng src ctx = ParseError e then ''unable to parse breach template''
                        else ''unable to render breach template''),
         vValue = e,
         vRemediator = None, vRemediationResult = noRemediationResult\<rparr>"
  using assms
  by (auto simp: EvaluateTemplateStringWithContext_def new_breach_def AddBreach_def
        emitted_def labelledValueBreach_def)

theorem synthetic_breach_has_no_metadata_witness:
  "(sample_engine ''{{ .Breach.Value'' sampleContext = ParseError ''unclosed action''
     \<or> sample_engine ''{{ .Breach.Value'' sampleContext = ExecError ''unclosed action'')
   \<and> GetCheckName (ctxBreach sampleContext) = ''security-check''
   \<and> GetSeverity (ctxBreach sampleContext) = ''high''
   \<and> emitted (snd (EvaluateTemplateStringWithContext sample_engine
        ([IsValueBreach sampleValue], mock emptyTemplate) ''{{ .Breach.Value'' sampleContext)) =
      IsValueBreach
        \<lparr>vBreachType = [], vCheckType = [], vCheckName = [], vSeverity = [],
         vValueLabel = ''unable to parse breach template'',
         vValue = ''unclosed action'',
         vRemediator = None, vRemediationResult = noRemediationResult\<rparr>"
  using synthetic_breach_has_no_metadata
          [of sample_engine "''{{ .Breach.Value''" sampleContext
              "''unclosed action''" "[IsValueBreach sampleValue]" "mock emptyTemplate"]
  by (simp add: sample_engine_def sampleContext_def newTemplateContext_def sampleValue_def)

section \<open>The rich path builds a new breach\<close>

lemma select_not_raw:
  "selectTemplateStr t fmt \<noteq> [] \<Longrightarrow> Template t \<noteq> [] \<or> Templates t \<noteq> []"
  by (auto simp: selectTemplateStr_def split: if_splits)

lemma enhanced_path:
  assumes sel: "selectTemplateStr (template bt) fmt \<noteq> []" and b: "b < length h"
    and ev: "EvaluateTemplateStringWithContext eng (h, bt)
               (selectTemplateStr (template bt) fmt)
               (newTemplateContext (template bt) (h ! b) fmt) = (out, (h1, bt1))"
  shows "EvaluateTemplateWithContext eng (h, bt) b r fmt =
           (h1 @ [SetRemediator r (enhancedBreach (h ! b) out)],
            bt1\<lparr>breaches := breaches bt1 @ [length h1]\<rparr>)"
proof -
  from eval_string_extends[OF ev] obtain xs where h1: "h1 = h @ xs" by blast
  have nth: "h1 ! b = h ! b" using b h1 by (simp add: nth_append)
  show ?thesis
    using select_not_raw[OF sel] sel ev nth
    by (auto simp add: EvaluateTemplateWithContext_def GetBreachTemplate_def Let_def
          new_breach_def AddBreach_def)
qed

text \<open>
  C5.  A \<^verbatim>\<open>KeyValuesBreach\<close> rendered through a rich template (the single \<^verbatim>\<open>Template\<close>
  or an entry of \<^verbatim>\<open>Templates\<close>) is emitted as a \<^verbatim>\<open>KeyValuesBreach\<close> with the key, the
  key label, the value label, the check type, the check name and the severity of the
  input, and with \<^verbatim>\<open>Values\<close> the one-element list of the rendered string, however many
  values the input had.
\<close>

theorem key_values_collapse_to_rendered:
  assumes "b < length h" and "h ! b = IsKeyValuesBreach kb"
    and "selectTemplateStr (template bt) fmt \<noteq> []"
  shows "emitted (EvaluateTemplateWithContext eng (h, bt) b r fmt) =
      IsKeyValuesBreach
        \<lparr>kvsBreachType = BreachTypeKeyValues, kvsCheckType = kvsCheckType kb,
         kvsCheckName = kvsCheckName kb, kvsSeverity = kvsSeverity kb,
         kvsKeyLabel = kvsKeyLabel kb, kvsKey = kvsKey kb,
         kvsValueLabel = kvsValueLabel kb,
         kvsValues = [fst (EvaluateTemplateStringWithContext eng (h, bt)
                        (selectTemplateStr (template bt) fmt)
                        (newTemplateContext (template bt) (h ! b) fmt))],
         kvsRemediator = r, kvsRemediationResult = noRemediationResult\<rparr>"
proof -
  obtain out h1 bt1 where ev: "EvaluateTemplateStringWithContext eng (h, bt)
                        (selectTemplateStr (template bt) fmt)
                        (newTemplateContext (template bt) (h ! b) fmt) = (out, (h1, bt1))"
    by (metis prod.exhaust)
  show ?thesis
    using assms(2) ev
    by (simp add: enhanced_path[OF assms(3) assms(1) ev] emitted_def enhancedBreach_def)
qed

theorem key_values_collapse_to_rendered_witness:
  "(0::nat) < length [IsKeyValuesBreach sampleKeyValues]
   \<and> [IsKeyValuesBreach sampleKeyValues] ! 0 = IsKeyValuesBreach sampleKeyValues
   \<and> selectTemplateStr
        (template (mock (emptyTemplate\<lparr>Templates := [(''json'', ''many files'')]\<rparr>))) ''json'' \<noteq> []
   \<and> length (kvsValues sampleKeyValues) = 3
   \<and> emitted (EvaluateTemplateWithContext sample_engine
        ([IsKeyValuesBreach sampleKeyValues],
         mock (emptyTemplate\<lparr>Templates := [(''json'', ''many files'')]\<rparr>))
        0 (Some 7) ''json'') =
      IsKeyValuesBreach
        \<lparr>kvsBreachType = ''key-values'', kvsCheckType = ''file'',
         kvsCheckName = ''file_check'', kvsSeverity = ''low'',
         kvsKeyLabel = ''dir'', kvsKey = ''config_files'',
         kvsValueLabel = ''files'', kvsValues = [''many files''],
         kvsRemediator = Some 7, kvsRemediationResult = noRemediationResult\<rparr>"
  using key_values_collapse_to_rendered
          [of 0 "[IsKeyValuesBreach sampleKeyValues]" sampleKeyValues
              "mock (emptyTemplate\<lparr>Templates := [(''json'', ''many files'')]\<rparr>)"
              "''json''" sample_engine "Some 7"]
  by (simp add: sampleKeyValues_def mock_def emptyTemplate_def selectTemplateStr_def
        EvaluateTemplateStringWithContext_def sample_engine_def BreachTypeKeyValues_def)

text \<open>
  C9.  A \<^verbatim>\<open>ValueBreach\<close> rendered through a rich template is emitted with its type tag,
  check type, check name, severity and the rendered value only: the value label of the
  output is empty whatever the input's was.  The \<^verbatim>\<open>KeyValueBreach\<close> and
  \<^verbatim>\<open>KeyValuesBreach\<close> cases of the same path copy their labels.
\<close>

theorem value_breach_label_dropped:
  assumes "b < length h" and "selectTemplateStr (template bt) fmt \<noteq> []"
    and "rendered = fst (EvaluateTemplateStringWithContext eng (h, bt)
                        (selectTemplateStr (template bt) fmt)
                        (newTemplateContext (template bt) (h ! b) fmt))"
  shows "case h ! b of
      IsValueBreach vb \<Rightarrow>
        emitted (EvaluateTemplateWithContext eng (h, bt) b r fmt) =
          IsValueBreach
            \<lparr>vBreachType = BreachTypeValue, vCheckType = vCheckType vb,
             vCheckName = vCheckName vb, vSeverity = vSeverity vb,
             vValueLabel = [], vValue = rendered,
             vRemediator = r, vRemediationResult = noRemediationResult\<rparr>
    | IsKeyValueBreach kb \<Rightarrow>
        BreachGetValueLabel (emitted (EvaluateTemplateWithContext eng (h, bt) b r fmt))
          = kvValueLabel kb
        \<and> BreachGetKeyLabel (emitted (EvaluateTemplateWithContext eng (h, bt) b r fmt))
          = kvKeyLabel kb
    | IsKeyValuesBreach kb \<Rightarrow>
        BreachGetValueLabel (emitted (EvaluateTemplateWithContext eng (h, bt) b r fmt))
          = kvsValueLabel kb
        \<and> BreachGetKeyLabel (emitted (EvaluateTemplateWithContext eng (h, bt) b r fmt))
          = kvsKeyLabel kb"
proof -
  obtain out h1 bt1 where ev: "EvaluateTemplateStringWithContext eng (h, bt)
                        (selectTemplateStr (template bt) fmt)
                        (newTemplateContext (template bt) (h ! b) fmt) = (out, (h1, bt1))"
    by (metis prod.exhaust)
  show ?thesis
    using assms(3) ev
    by (simp add: enhanced_path[OF assms(2) assms(1) ev] emitted_def enhancedBreach_def
          split: Breach.split)
qed

theorem value_breach_label_dropped_witness:
  "(0::nat) < length [IsValueBreach sampleValue]
   \<and> selectTemplateStr
        (template (mock (emptyTemplate\<lparr>Template := ''{{ .Breach.Value | upper }}''\<rparr>)))
        ''pretty'' \<noteq> []
   \<and> vValueLabel sampleValue = ''file''
   \<and> emitted (EvaluateTemplateWithContext sample_engine
        ([IsValueBreach sampleValue],
         mock (emptyTemplate\<lparr>Template := ''{{ .Breach.Value | upper }}''\<rparr>))
        0 None ''pretty'') =
      IsValueBreach
        \<lparr>vBreachType = ''value'', vCheckType = ''file'',
         vCheckName = ''security-check'', vSeverity = ''high'',
         vValueLabel = [], vValue = ''FAIL B'',
         vRemediator = None, vRemediationResult = noRemediationResult\<rparr>"
  using value_breach_label_dropped
          [of 0 "[IsValueBreach sampleValue]"
              "mock (emptyTemplate\<lparr>Template := ''{{ .Breach.Value | upper }}''\<rparr>)"
              "''pretty''" "''FAIL B''" sample_engine None]
  by (simp add: sampleValue_def mock_def emptyTemplate_def selectTemplateStr_def
        EvaluateTemplateStringWithContext_def sample_engine_def BreachTypeValue_def
        newTemplateContext_def toUpperASCII_def)

section \<open>The legacy path writes into the breach it was given\<close>

lemma renderField_extends:
  "renderField eng ctx src (cur, (h, bt)) = (out, (h', bt')) \<Longrightarrow>
     (\<exists>xs. h' = h @ xs) \<and> template bt' = template bt"
  by (auto simp: renderField_def dest: eval_string_extends split: if_splits)

lemma legacy_path:
  fixes bt :: "'c BreachTemplater"
  assumes nraw: "Type (template bt) \<noteq> [] \<or> Template (template bt) \<noteq> [] \<or> Templates (template bt) \<noteq> []"
    and sel: "selectTemplateStr (template bt) fmt = []" and b: "b < length h"
  shows "\<exists>keyLabel key valueLabel val xs bt4.
     template bt4 = template bt \<and>
     EvaluateTemplateWithContext eng (h, bt) b r fmt =
       ((h @ xs)[b := SetRemediator r (legacyBreach
            (\<lparr>Type = GetType (h ! b), KeyLabel = keyLabel, Key = key,
              ValueLabel = valueLabel, Value = val,
              Template = [], Templates = [], Context = []\<rparr> :: 'c BreachTemplate) (h ! b))],
        AddBreach bt4 b)"
proof -
  let ?t = "template bt"
  let ?ctx = "newTemplateContext ?t (h ! b) fmt"
  obtain keyLabel h1 bt1 where s1:
    "renderField eng ?ctx (KeyLabel ?t) (BreachGetKeyLabel (h ! b), (h, bt)) = (keyLabel, (h1, bt1))"
    by (metis prod.exhaust)
  obtain key h2 bt2 where s2:
    "renderField eng ?ctx (Key ?t) (BreachGetKey (h ! b), (h1, bt1)) = (key, (h2, bt2))"
    by (metis prod.exhaust)
  obtain valueLabel h3 bt3 where s3:
    "renderField eng ?ctx (ValueLabel ?t) (BreachGetValueLabel (h ! b), (h2, bt2)) = (valueLabel, (h3, bt3))"
    by (metis prod.exhaust)
  obtain val h4 bt4 where s4:
    "renderField eng ?ctx (Value ?t) (BreachGetValue (h ! b), (h3, bt3)) = (val, (h4, bt4))"
    by (metis prod.exhaust)
  from renderField_extends[OF s1] renderField_extends[OF s2]
       renderField_extends[OF s3] renderField_extends[OF s4]
  obtain xs where h4: "h4 = h @ xs" and t4: "template bt4 = template bt"
    by auto
  have nth: "h4 ! b = h ! b" using b h4 by (simp add: nth_append)
  have "EvaluateTemplateWithContext eng (h, bt) b r fmt =
       (h4[b := SetRemediator r (legacyBreach
            (\<lparr>Type = GetType (h ! b), KeyLabel = keyLabel, Key = key,
              ValueLabel = valueLabel, Value = val,
              Template = [], Templates = [], Context = []\<rparr> :: 'c BreachTemplate) (h ! b))],
        AddBreach bt4 b)"
    using nraw sel s1 s2 s3 s4 nth
    by (auto simp add: EvaluateTemplateWithContext_def GetBreachTemplate_def Let_def)
  then show ?thesis using h4 t4 by blast
qed

lemma GetType_SetRemediator: "GetType (SetRemediator r x) = GetType x"
  by (cases x) simp_all

lemma GetType_legacyBreach: "GetType (legacyBreach rd x) = GetType x"
  by (cases x) (simp_all add: legacyBreach_def)

lemma GetType_enhancedBreach: "GetType (enhancedBreach x out) = GetType x"
  by (cases x) (simp_all add: enhancedBreach_def)

text \<open>
  C1 (as stated, refuted).  The template has \<^verbatim>\<open>Value\<close> set and nothing else, in
  particular no \<^verbatim>\<open>Type\<close>.  Evaluating its \<^verbatim>\<open>Value\<close> source on the breach with value
  \<^verbatim>\<open>fail b\<close> gives \<^verbatim>\<open>FAIL B\<close>, but the breach emitted by the renderer still has the
  value \<^verbatim>\<open>fail b\<close>: with \<^verbatim>\<open>Type\<close>, \<^verbatim>\<open>Template\<close> and \<^verbatim>\<open>Templates\<close> all empty the first
  test of \<^verbatim>\<open>EvaluateTemplateWithContext\<close> takes the raw path.
\<close>

theorem value_only_template_is_raw_counterexample:
  "Type valueOnlyTemplate = [] \<and> Template valueOnlyTemplate = []
   \<and> Templates valueOnlyTemplate = []
   \<and> fst (EvaluateTemplateStringWithContext sample_engine
            ([IsValueBreach sampleValue], mock valueOnlyTemplate) (Value valueOnlyTemplate)
            (newTemplateContext valueOnlyTemplate (IsValueBreach sampleValue) ''pretty''))
       = ''FAIL B''
   \<and> BreachGetValue (emitted (EvaluateTemplateWithContext sample_engine
            ([IsValueBreach sampleValue], mock valueOnlyTemplate) 0 None ''pretty''))
       = ''fail b''"
  by (simp add: valueOnlyTemplate_def emptyTemplate_def mock_def sampleValue_def
        EvaluateTemplateWithContext_def EvaluateTemplateStringWithContext_def
        GetBreachTemplate_def AddBreach_def emitted_def sample_engine_def
        newTemplateContext_def toUpperASCII_def)

text \<open>
  C1 (amended).  For a \<^verbatim>\<open>ValueBreach\<close> and a template whose rich fields are empty and
  whose only non-empty field besides \<^verbatim>\<open>Type\<close> is \<^verbatim>\<open>Value\<close>: when \<^verbatim>\<open>Type\<close> is set, the
  emitted breach has the evaluation of the \<^verbatim>\<open>Value\<close> source as its value and every other
  field as before (the remediator is attached); when \<^verbatim>\<open>Type\<close> is empty too, the breach
  is emitted unrendered.
\<close>

theorem legacy_value_needs_type:
  fixes bt :: "'c BreachTemplater"
  assumes "b < length h" and "h ! b = IsValueBreach vb"
    and "Template (template bt) = []" and "Templates (template bt) = []"
    and "KeyLabel (template bt) = []" and "Key (template bt) = []"
    and "ValueLabel (template bt) = []" and "Value (template bt) \<noteq> []"
  shows "emitted (EvaluateTemplateWithContext eng (h, bt) b r fmt) =
     (if Type (template bt) = [] then IsValueBreach (vb\<lparr>vRemediator := r\<rparr>)
      else IsValueBreach
             (vb\<lparr>vValue := fst (EvaluateTemplateStringWithContext eng (h, bt)
                                 (Value (template bt))
                                 (newTemplateContext (template bt) (h ! b) fmt)),
                 vRemediator := r\<rparr>))"
proof (cases "Type (template bt) = []")
  case True
  then show ?thesis
    using assms
    by (simp add: EvaluateTemplateWithContext_def GetBreachTemplate_def AddBreach_def
          emitted_def)
next
  case False
  obtain out h1 bt1 where ev: "EvaluateTemplateStringWithContext eng (h, bt)
        (Value (template bt)) (newTemplateContext (template bt) (h ! b) fmt) = (out, (h1, bt1))"
    by (metis prod.exhaust)
  from eval_string_extends[OF ev] obtain xs where h1: "h1 = h @ xs" by blast
  have nth: "h1 ! b = h ! b" and len: "b < length h1"
    using assms(1) h1 by (simp_all add: nth_append)
  have sel: "selectTemplateStr (template bt) fmt = []"
    using assms(3,4) by (simp add: selectTemplateStr_def)
  show ?thesis
    using False assms(2-8) sel ev nth len
    by (simp add: EvaluateTemplateWithContext_def GetBreachTemplate_def AddBreach_def
          emitted_def Let_def renderField_def legacyBreach_def)
qed

theorem legacy_value_needs_type_witness:
  "(0::nat) < length [IsValueBreach sampleValue]
   \<and> [IsValueBreach sampleValue] ! 0 = IsValueBreach sampleValue
   \<and> Value (template (mock typedValueTemplate)) \<noteq> []
   \<and> Type (template (mock typedValueTemplate)) \<noteq> []
   \<and> emitted (EvaluateTemplateWithContext sample_engine
        ([IsValueBreach sampleValue], mock typedValueTemplate) 0 (Some 3) ''pretty'')
      = IsValueBreach (sampleValue\<lparr>vValue := ''FAIL B'', vRemediator := Some 3\<rparr>)
   \<and> Type (template (mock valueOnlyTemplate)) = []
   \<and> emitted (EvaluateTemplateWithContext sample_engine
        ([IsValueBreach sampleValue], mock valueOnlyTemplate) 0 (Some 3) ''pretty'')
      = IsValueBreach (sampleValue\<lparr>vRemediator := Some 3\<rparr>)"
  using legacy_value_needs_type[of 0 "[IsValueBreach sampleValue]" sampleValue "mock typedValueTemplate"
             sample_engine "Some 3" "''pretty''"]
        legacy_value_needs_type[of 0 "[IsValueBreach sampleValue]" sampleValue "mock valueOnlyTemplate"
             sample_engine "Some 3" "''pretty''"]
  by (simp add: typedValueTemplate_def valueOnlyTemplate_def emptyTemplate_def mock_def
        BreachTypeValue_def EvaluateTemplateStringWithContext_def sample_engine_def
        newTemplateContext_def toUpperASCII_def sampleValue_def)

section \<open>Which template is chosen\<close>

lemma eval_string_template_irrelevant:
  "EvaluateTemplateStringWithContext eng (h, bt\<lparr>template := t'\<rparr>) src ctx =
     (case EvaluateTemplateStringWithContext eng (h, bt) src ctx of
        (out, (h', bt')) \<Rightarrow> (out, (h', bt'\<lparr>template := t'\<rparr>)))"
  by (simp add: EvaluateTemplateStringWithContext_def new_breach_def AddBreach_def
        split: tmpl_result.splits)

lemma renderField_template_irrelevant:
  "renderField eng ctx src (cur, (h, bt\<lparr>template := t'\<rparr>)) =
     (case renderField eng ctx src (cur, (h, bt)) of
        (out, (h', bt')) \<Rightarrow> (out, (h', bt'\<lparr>template := t'\<rparr>)))"
  by (simp add: renderField_def eval_string_template_irrelevant)

text \<open>
  C2 (as stated, refuted).  \<^verbatim>\<open>Templates\<close> has the single key \<^verbatim>\<open>json\<close>, \<^verbatim>\<open>Template\<close> is
  \<^verbatim>\<open>as text\<close>, the output format is \<^verbatim>\<open>pretty\<close>.  The evaluation of \<^verbatim>\<open>Template\<close> is
  \<^verbatim>\<open>as text\<close>, but the breach is emitted as it came: \<^verbatim>\<open>Template\<close> is read only in the
  \<^verbatim>\<open>else\<close> branch of \<^verbatim>\<open>len(t.Templates) > 0\<close>.
\<close>

theorem template_ignored_beside_templates_counterexample:
  "Templates formatsAndSingleTemplate \<noteq> []
   \<and> map_of (Templates formatsAndSingleTemplate) ''pretty'' = None
   \<and> map_of (Templates formatsAndSingleTemplate) ''default'' = None
   \<and> Template formatsAndSingleTemplate = ''as text''
   \<and> fst (EvaluateTemplateStringWithContext sample_engine
            ([IsValueBreach sampleValue], mock formatsAndSingleTemplate)
            (Template formatsAndSingleTemplate)
            (newTemplateContext formatsAndSingleTemplate (IsValueBreach sampleValue) ''pretty''))
       = ''as text''
   \<and> emitted (EvaluateTemplateWithContext sample_engine
            ([IsValueBreach sampleValue], mock formatsAndSingleTemplate) 0 None ''pretty'')
       = IsValueBreach sampleValue"
  by (simp add: formatsAndSingleTemplate_def emptyTemplate_def mock_def sampleValue_def
        EvaluateTemplateWithContext_def EvaluateTemplateStringWithContext_def
        GetBreachTemplate_def AddBreach_def emitted_def sample_engine_def
        newTemplateContext_def selectTemplateStr_def renderField_def legacyBreach_def)

text \<open>
  C2 (amended).  With a non-empty \<^verbatim>\<open>Template\<close>: when \<^verbatim>\<open>Templates\<close> is empty, the
  chosen source is \<^verbatim>\<open>Template\<close> and the renderer emits the fresh breach built from its
  evaluation; when \<^verbatim>\<open>Templates\<close> is non-empty and has neither a non-empty entry for the
  output format nor a \<^verbatim>\<open>default\<close> entry, no rich template is chosen and the renderer
  does exactly what it does for the same template with \<^verbatim>\<open>Template\<close> empty (the legacy
  per-field path).
\<close>

theorem template_used_only_without_templates:
  fixes bt :: "'c BreachTemplater"
  assumes "b < length h" and "Template (template bt) \<noteq> []"
  shows "(Templates (template bt) = [] \<longrightarrow>
            selectTemplateStr (template bt) fmt = Template (template bt)
            \<and> EvaluateTemplateWithContext eng (h, bt) b r fmt =
               (case EvaluateTemplateStringWithContext eng (h, bt) (Template (template bt))
                       (newTemplateContext (template bt) (h ! b) fmt) of
                  (out, (h1, bt1)) \<Rightarrow>
                    (h1 @ [SetRemediator r (enhancedBreach (h ! b) out)],
                     AddBreach bt1 (length h1))))
       \<and> (Templates (template bt) \<noteq> []
            \<and> (map_of (Templates (template bt)) fmt = None
                 \<or> map_of (Templates (template bt)) fmt = Some [])
            \<and> map_of (Templates (template bt)) ''default'' = None \<longrightarrow>
            selectTemplateStr (template bt) fmt = []
            \<and> EvaluateTemplateWithContext eng (h, bt) b r fmt =
               (case EvaluateTemplateWithContext eng
                       (h, bt\<lparr>template := (template bt)\<lparr>Template := []\<rparr>\<rparr>) b r fmt of
                  (h', bt') \<Rightarrow> (h', bt'\<lparr>template := template bt\<rparr>)))"
proof (intro conjI impI)
  assume e: "Templates (template bt) = []"
  then show sel: "selectTemplateStr (template bt) fmt = Template (template bt)"
    using assms(2) by (simp add: selectTemplateStr_def)
  obtain out h1 bt1 where ev: "EvaluateTemplateStringWithContext eng (h, bt)
        (selectTemplateStr (template bt) fmt)
        (newTemplateContext (template bt) (h ! b) fmt) = (out, (h1, bt1))"
    by (metis prod.exhaust)
  have ne: "selectTemplateStr (template bt) fmt \<noteq> []" using sel assms(2) by simp
  show "EvaluateTemplateWithContext eng (h, bt) b r fmt =
               (case EvaluateTemplateStringWithContext eng (h, bt) (Template (template bt))
                       (newTemplateContext (template bt) (h ! b) fmt) of
                  (out, (h1, bt1)) \<Rightarrow>
                    (h1 @ [SetRemediator r (enhancedBreach (h ! b) out)],
                     AddBreach bt1 (length h1)))"
    using ev sel by (simp add: enhanced_path[OF ne assms(1) ev] AddBreach_def)
next
  assume a: "Templates (template bt) \<noteq> []
            \<and> (map_of (Templates (template bt)) fmt = None
                 \<or> map_of (Templates (template bt)) fmt = Some [])
            \<and> map_of (Templates (template bt)) ''default'' = None"
  then show "selectTemplateStr (template bt) fmt = []"
    by (auto simp add: selectTemplateStr_def)
  have bt_eq: "bt\<lparr>template := template bt\<rparr> = bt" by simp
  show "EvaluateTemplateWithContext eng (h, bt) b r fmt =
               (case EvaluateTemplateWithContext eng
                       (h, bt\<lparr>template := (template bt)\<lparr>Template := []\<rparr>\<rparr>) b r fmt of
                  (h', bt') \<Rightarrow> (h', bt'\<lparr>template := template bt\<rparr>))"
  proof -
    let ?t = "template bt"
    let ?ctx = "newTemplateContext ?t (h ! b) fmt"
    obtain keyLabel h1 bt1 where s1:
      "renderField eng ?ctx (KeyLabel ?t) (BreachGetKeyLabel (h ! b), (h, bt)) = (keyLabel, (h1, bt1))"
      by (metis prod.exhaust)
    obtain key h2 bt2 where s2:
      "renderField eng ?ctx (Key ?t) (BreachGetKey (h ! b), (h1, bt1)) = (key, (h2, bt2))"
      by (metis prod.exhaust)
    obtain valueLabel h3 bt3 where s3:
      "renderField eng ?ctx (ValueLabel ?t) (BreachGetValueLabel (h ! b), (h2, bt2)) = (valueLabel, (h3, bt3))"
      by (metis prod.exhaust)
    obtain val h4 bt4 where s4:
      "renderField eng ?ctx (Value ?t) (BreachGetValue (h ! b), (h3, bt3)) = (val, (h4, bt4))"
      by (metis prod.exhaust)
    from renderField_extends[OF s1] renderField_extends[OF s2]
         renderField_extends[OF s3] renderField_extends[OF s4]
    have t4: "template bt4 = template bt" by simp
    have restore: "bt4\<lparr>breaches := breaches bt4 @ [b], template := template bt\<rparr>
                  = bt4\<lparr>breaches := breaches bt4 @ [b]\<rparr>"
      using t4 by (cases bt4) simp
    show ?thesis
      using a s1 s2 s3 s4 restore
      by (auto simp add: EvaluateTemplateWithContext_def GetBreachTemplate_def Let_def
            selectTemplateStr_def newTemplateContext_def renderField_template_irrelevant
            AddBreach_def)
  qed
qed

theorem template_used_only_without_templates_witness:
  "(0::nat) < length [IsValueBreach sampleValue]
   \<and> Template (template (mock (emptyTemplate\<lparr>Template := ''as text''\<rparr>))) \<noteq> []
   \<and> Templates (template (mock (emptyTemplate\<lparr>Template := ''as text''\<rparr>))) = []
   \<and> emitted (EvaluateTemplateWithContext sample_engine
        ([IsValueBreach sampleValue], mock (emptyTemplate\<lparr>Template := ''as text''\<rparr>))
        0 None ''pretty'')
      = enhancedBreach (IsValueBreach sampleValue) ''as text''
   \<and> Template (template (mock formatsAndSingleTemplate)) \<noteq> []
   \<and> Templates (template (mock formatsAndSingleTemplate)) \<noteq> []
   \<and> map_of (Templates (template (mock formatsAndSingleTemplate))) ''pretty'' = None
   \<and> map_of (Templates (template (mock formatsAndSingleTemplate))) ''default'' = None
   \<and> EvaluateTemplateWithContext sample_engine
        ([IsValueBreach sampleValue], mock formatsAndSingleTemplate) 0 None ''pretty''
      = ([IsValueBreach sampleValue],
         \<lparr>template = formatsAndSingleTemplate, breaches = [0]\<rparr>)"
  using template_used_only_without_templates[of 0 "[IsValueBreach sampleValue]" "mock (emptyTemplate\<lparr>Template := ''as text''\<rparr>)"
             "''pretty''" sample_engine None]
        template_used_only_without_templates[of 0 "[IsValueBreach sampleValue]" "mock formatsAndSingleTemplate"
             "''pretty''" sample_engine None]
  by (simp add: formatsAndSingleTemplate_def emptyTemplate_def mock_def sampleValue_def
        EvaluateTemplateWithContext_def EvaluateTemplateStringWithContext_def
        GetBreachTemplate_def AddBreach_def emitted_def sample_engine_def
        newTemplateContext_def selectTemplateStr_def renderField_def legacyBreach_def
        enhancedBreach_def)

section \<open>Fresh object or the same object\<close>

text \<open>The string an evaluation returns does not depend on the world it runs in, so the
  fields of the legacy path, rendered one after the other, are each the rendering in the
  initial world.\<close>

lemma eval_string_fst:
  "fst (EvaluateTemplateStringWithContext eng w src ctx)
     = fst (EvaluateTemplateStringWithContext eng w' src ctx)"
  by (cases w; cases w')
     (simp add: EvaluateTemplateStringWithContext_def new_breach_def split: tmpl_result.split)

lemma renderField_fst:
  "fst (renderField eng ctx src (cur, w)) = renderedOr eng w0 ctx src cur"
  using eval_string_fst[of eng w src ctx w0] by (simp add: renderField_def renderedOr_def)

lemma legacy_path_fields:
  fixes bt :: "'c BreachTemplater"
  assumes nraw: "Type (template bt) \<noteq> [] \<or> Template (template bt) \<noteq> [] \<or> Templates (template bt) \<noteq> []"
    and sel: "selectTemplateStr (template bt) fmt = []" and b: "b < length h"
    and ctx: "ctx = newTemplateContext (template bt) (h ! b) fmt"
  shows "\<exists>xs bt4.
     EvaluateTemplateWithContext eng (h, bt) b r fmt =
       ((h @ xs)[b := SetRemediator r (legacyBreach
            (\<lparr>Type = GetType (h ! b),
              KeyLabel = renderedOr eng (h, bt) ctx (KeyLabel (template bt)) (BreachGetKeyLabel (h ! b)),
              Key = renderedOr eng (h, bt) ctx (Key (template bt)) (BreachGetKey (h ! b)),
              ValueLabel = renderedOr eng (h, bt) ctx (ValueLabel (template bt))
                             (BreachGetValueLabel (h ! b)),
              Value = renderedOr eng (h, bt) ctx (Value (template bt)) (BreachGetValue (h ! b)),
              Template = [], Templates = [], Context = []\<rparr> :: 'c BreachTemplate) (h ! b))],
        AddBreach bt4 b)"
proof -
  let ?t = "template bt"
  obtain keyLabel h1 bt1 where s1:
    "renderField eng ctx (KeyLabel ?t) (BreachGetKeyLabel (h ! b), (h, bt)) = (keyLabel, (h1, bt1))"
    by (metis prod.exhaust)
  obtain key h2 bt2 where s2:
    "renderField eng ctx (Key ?t) (BreachGetKey (h ! b), (h1, bt1)) = (key, (h2, bt2))"
    by (metis prod.exhaust)
  obtain valueLabel h3 bt3 where s3:
    "renderField eng ctx (ValueLabel ?t) (BreachGetValueLabel (h ! b), (h2, bt2)) = (valueLabel, (h3, bt3))"
    by (metis prod.exhaust)
  obtain val h4 bt4 where s4:
    "renderField eng ctx (Value ?t) (BreachGetValue (h ! b), (h3, bt3)) = (val, (h4, bt4))"
    by (metis prod.exhaust)
  from renderField_extends[OF s1] renderField_extends[OF s2]
       renderField_extends[OF s3] renderField_extends[OF s4]
  obtain xs where h4: "h4 = h @ xs"
    by auto
  have nth: "h4 ! b = h ! b" using b h4 by (simp add: nth_append)
  have f1: "keyLabel = renderedOr eng (h, bt) ctx (KeyLabel ?t) (BreachGetKeyLabel (h ! b))"
    using renderField_fst[of eng ctx "KeyLabel ?t" "BreachGetKeyLabel (h ! b)" "(h, bt)" "(h, bt)"] s1 by simp
  have f2: "key = renderedOr eng (h, bt) ctx (Key ?t) (BreachGetKey (h ! b))"
    using renderField_fst[of eng ctx "Key ?t" "BreachGetKey (h ! b)" "(h1, bt1)" "(h, bt)"] s2 by simp
  have f3: "valueLabel = renderedOr eng (h, bt) ctx (ValueLabel ?t) (BreachGetValueLabel (h ! b))"
    using renderField_fst[of eng ctx "ValueLabel ?t" "BreachGetValueLabel (h ! b)" "(h2, bt2)" "(h, bt)"] s3 by simp
  have f4: "val = renderedOr eng (h, bt) ctx (Value ?t) (BreachGetValue (h ! b))"
    using renderField_fst[of eng ctx "Value ?t" "BreachGetValue (h ! b)" "(h3, bt3)" "(h, bt)"] s4 by simp
  have "EvaluateTemplateWithContext eng (h, bt) b r fmt =
       (h4[b := SetRemediator r (legacyBreach
            (\<lparr>Type = GetType (h ! b), KeyLabel = keyLabel, Key = key,
              ValueLabel = valueLabel, Value = val,
              Template = [], Templates = [], Context = []\<rparr> :: 'c BreachTemplate) (h ! b))],
        AddBreach bt4 b)"
    using nraw sel s1 s2 s3 s4 nth
    by (auto simp add: EvaluateTemplateWithContext_def GetBreachTemplate_def Let_def ctx)
  then show ?thesis unfolding f1 f2 f3 f4 h4 by blast
qed

text \<open>
  C4 (as stated, refuted).  A legacy template (\<^verbatim>\<open>Type\<close> and \<^verbatim>\<open>Value\<close> set) applied to the
  breach at address 0: afterwards the object at address 0 has the rendered value, no
  object was allocated, and the breach added to the templater is address 0 itself.
\<close>

theorem legacy_path_mutates_input_counterexample:
  "[IsValueBreach sampleValue] ! 0 = IsValueBreach sampleValue
   \<and> vValue sampleValue = ''fail b''
   \<and> EvaluateTemplateWithContext sample_engine
        ([IsValueBreach sampleValue], mock typedValueTemplate) 0 None ''pretty''
      = ([IsValueBreach (sampleValue\<lparr>vValue := ''FAIL B''\<rparr>)],
         \<lparr>template = typedValueTemplate, breaches = [0]\<rparr>)"
  by (simp add: typedValueTemplate_def valueOnlyTemplate_def emptyTemplate_def mock_def
        sampleValue_def BreachTypeValue_def
        EvaluateTemplateWithContext_def EvaluateTemplateStringWithContext_def
        GetBreachTemplate_def AddBreach_def sample_engine_def
        newTemplateContext_def selectTemplateStr_def renderField_def legacyBreach_def
        toUpperASCII_def)

text \<open>
  C4 (amended).  When a rich template is chosen, every object that existed before the
  call, the input breach among them, is unchanged afterwards, and the emitted breach is
  a newly allocated object of the same variant: it has the type tag of the variant, the
  check type, check name and severity of the input, the labels and key of the input
  where the variant keeps them, the rendered text as its value (its only value for a
  \<^verbatim>\<open>KeyValuesBreach\<close>), no value label for a \<^verbatim>\<open>ValueBreach\<close>, no expected value, no
  remediation result, and the remediator of the call.  When no rich template is chosen
  and the template is not empty (legacy path), the emitted breach is the input object
  itself, at its own address, and the object there is the input with each field that
  has a template overwritten by its rendering (key label, key, value label and value,
  as far as the variant has them; the values of a \<^verbatim>\<open>KeyValuesBreach\<close> are never
  written) and with the remediator of the call.  When the template is empty (raw path),
  the emitted breach is the input object itself and only its remediator is written.
\<close>

theorem rich_path_fresh_legacy_in_place:
  fixes bt :: "'c BreachTemplater"
  assumes "b < length h"
    and "t = template bt"
    and "ctx = newTemplateContext t (h ! b) fmt"
    and "rendered = fst (EvaluateTemplateStringWithContext eng (h, bt) (selectTemplateStr t fmt) ctx)"
    and "w' = EvaluateTemplateWithContext eng (h, bt) b r fmt"
  shows "(selectTemplateStr t fmt \<noteq> [] \<longrightarrow>
            take (length h) (fst w') = h
            \<and> length h \<le> last (breaches (snd w'))
            \<and> last (breaches (snd w')) < length (fst w')
            \<and> emitted w' =
                (case h ! b of
                   IsValueBreach vb \<Rightarrow> IsValueBreach
                     \<lparr>vBreachType = BreachTypeValue, vCheckType = vCheckType vb,
                      vCheckName = vCheckName vb, vSeverity = vSeverity vb,
                      vValueLabel = [], vValue = rendered,
                      vRemediator = r, vRemediationResult = \<lparr>Status = [], Messages = []\<rparr>\<rparr>
                 | IsKeyValueBreach kb \<Rightarrow> IsKeyValueBreach
                     \<lparr>kvBreachType = BreachTypeKeyValue, kvCheckType = kvCheckType kb,
                      kvCheckName = kvCheckName kb, kvSeverity = kvSeverity kb,
                      kvKeyLabel = kvKeyLabel kb, kvKey = kvKey kb,
                      kvValueLabel = kvValueLabel kb, kvValue = rendered,
                      kvExpectedValue = [],
                      kvRemediator = r, kvRemediationResult = \<lparr>Status = [], Messages = []\<rparr>\<rparr>
                 | IsKeyValuesBreach ks \<Rightarrow> IsKeyValuesBreach
                     \<lparr>kvsBreachType = BreachTypeKeyValues, kvsCheckType = kvsCheckType ks,
                      kvsCheckName = kvsCheckName ks, kvsSeverity = kvsSeverity ks,
                      kvsKeyLabel = kvsKeyLabel ks, kvsKey = kvsKey ks,
                      kvsValueLabel = kvsValueLabel ks, kvsValues = [rendered],
                      kvsRemediator = r,
                      kvsRemediationResult = \<lparr>Status = [], Messages = []\<rparr>\<rparr>))
       \<and> (selectTemplateStr t fmt = [] \<and> (Type t \<noteq> [] \<or> Templates t \<noteq> []) \<longrightarrow>
            last (breaches (snd w')) = b
            \<and> fst w' ! b =
                (case h ! b of
                   IsValueBreach vb \<Rightarrow> IsValueBreach
                     (vb\<lparr>vValueLabel := renderedOr eng (h, bt) ctx (ValueLabel t) (vValueLabel vb),
                         vValue := renderedOr eng (h, bt) ctx (Value t) (vValue vb),
                         vRemediator := r\<rparr>)
                 | IsKeyValueBreach kb \<Rightarrow> IsKeyValueBreach
                     (kb\<lparr>kvKeyLabel := renderedOr eng (h, bt) ctx (KeyLabel t) (kvKeyLabel kb),
                         kvKey := renderedOr eng (h, bt) ctx (Key t) (kvKey kb),
                         kvValueLabel := renderedOr eng (h, bt) ctx (ValueLabel t) (kvValueLabel kb),
                         kvValue := renderedOr eng (h, bt) ctx (Value t) (kvValue kb),
                         kvRemediator := r\<rparr>)
                 | IsKeyValuesBreach ks \<Rightarrow> IsKeyValuesBreach
                     (ks\<lparr>kvsKeyLabel := renderedOr eng (h, bt) ctx (KeyLabel t) (kvsKeyLabel ks),
                         kvsKey := renderedOr eng (h, bt) ctx (Key t) (kvsKey ks),
                         kvsValueLabel :=
                           renderedOr eng (h, bt) ctx (ValueLabel t) (kvsValueLabel ks),
                         kvsRemediator := r\<rparr>)))
       \<and> (Type t = [] \<and> Template t = [] \<and> Templates t = [] \<longrightarrow>
            last (breaches (snd w')) = b
            \<and> fst w' =
                h[b := (case h ! b of
                          IsValueBreach vb \<Rightarrow> IsValueBreach (vb\<lparr>vRemediator := r\<rparr>)
                        | IsKeyValueBreach kb \<Rightarrow> IsKeyValueBreach (kb\<lparr>kvRemediator := r\<rparr>)
                        | IsKeyValuesBreach ks \<Rightarrow> IsKeyValuesBreach (ks\<lparr>kvsRemediator := r\<rparr>))])"
proof (intro conjI impI)
  assume sel: "selectTemplateStr t fmt \<noteq> []"
  then have sel': "selectTemplateStr (template bt) fmt \<noteq> []" using assms(2) by simp
  obtain out h1 bt1 where ev: "EvaluateTemplateStringWithContext eng (h, bt)
        (selectTemplateStr (template bt) fmt)
        (newTemplateContext (template bt) (h ! b) fmt) = (out, (h1, bt1))"
    by (metis prod.exhaust)
  from eval_string_extends[OF ev] obtain xs where h1: "h1 = h @ xs" by blast
  note ep = enhanced_path[OF sel' assms(1) ev, of r]
  have out: "rendered = out" using ev assms(2,3,4) by simp
  show "take (length h) (fst w') = h"
    by (simp add: assms(5) ep h1)
  show "length h \<le> last (breaches (snd w'))"
    by (simp add: assms(5) ep h1)
  show "last (breaches (snd w')) < length (fst w')"
    by (simp add: assms(5) ep h1)
  show "emitted w' =
                (case h ! b of
                   IsValueBreach vb \<Rightarrow> IsValueBreach
                     \<lparr>vBreachType = BreachTypeValue, vCheckType = vCheckType vb,
                      vCheckName = vCheckName vb, vSeverity = vSeverity vb,
                      vValueLabel = [], vValue = rendered,
                      vRemediator = r, vRemediationResult = \<lparr>Status = [], Messages = []\<rparr>\<rparr>
                 | IsKeyValueBreach kb \<Rightarrow> IsKeyValueBreach
                     \<lparr>kvBreachType = BreachTypeKeyValue, kvCheckType = kvCheckType kb,
                      kvCheckName = kvCheckName kb, kvSeverity = kvSeverity kb,
                      kvKeyLabel = kvKeyLabel kb, kvKey = kvKey kb,
                      kvValueLabel = kvValueLabel kb, kvValue = rendered,
                      kvExpectedValue = [],
                      kvRemediator = r, kvRemediationResult = \<lparr>Status = [], Messages = []\<rparr>\<rparr>
                 | IsKeyValuesBreach ks \<Rightarrow> IsKeyValuesBreach
                     \<lparr>kvsBreachType = BreachTypeKeyValues, kvsCheckType = kvsCheckType ks,
                      kvsCheckName = kvsCheckName ks, kvsSeverity = kvsSeverity ks,
                      kvsKeyLabel = kvsKeyLabel ks, kvsKey = kvsKey ks,
                      kvsValueLabel = kvsValueLabel ks, kvsValues = [rendered],
                      kvsRemediator = r,
                      kvsRemediationResult = \<lparr>Status = [], Messages = []\<rparr>\<rparr>)"
    by (simp add: assms(5) ep emitted_def enhancedBreach_def out noRemediationResult_def
          split: Breach.split)
next
  assume a: "selectTemplateStr t fmt = [] \<and> (Type t \<noteq> [] \<or> Templates t \<noteq> [])"
  then have sel: "selectTemplateStr (template bt) fmt = []"
    and nraw: "Type (template bt) \<noteq> [] \<or> Template (template bt) \<noteq> [] \<or> Templates (template bt) \<noteq> []"
    using assms(2) by auto
  have ctx: "ctx = newTemplateContext (template bt) (h ! b) fmt" using assms(2,3) by simp
  from legacy_path_fields[OF nraw sel assms(1) ctx, of eng r]
  obtain xs bt4 where res: "w' =
       ((h @ xs)[b := SetRemediator r (legacyBreach
            (\<lparr>Type = GetType (h ! b),
              KeyLabel = renderedOr eng (h, bt) ctx (KeyLabel (template bt)) (BreachGetKeyLabel (h ! b)),
              Key = renderedOr eng (h, bt) ctx (Key (template bt)) (BreachGetKey (h ! b)),
              ValueLabel = renderedOr eng (h, bt) ctx (ValueLabel (template bt))
                             (BreachGetValueLabel (h ! b)),
              Value = renderedOr eng (h, bt) ctx (Value (template bt)) (BreachGetValue (h ! b)),
              Template = [], Templates = [], Context = []\<rparr> :: 'c BreachTemplate) (h ! b))],
        AddBreach bt4 b)"
    using assms(5) by auto
  show "last (breaches (snd w')) = b"
    by (simp add: res AddBreach_def)
  have len: "b < length (h @ xs)" using assms(1) by simp
  show "fst w' ! b =
                (case h ! b of
                   IsValueBreach vb \<Rightarrow> IsValueBreach
                     (vb\<lparr>vValueLabel := renderedOr eng (h, bt) ctx (ValueLabel t) (vValueLabel vb),
                         vValue := renderedOr eng (h, bt) ctx (Value t) (vValue vb),
                         vRemediator := r\<rparr>)
                 | IsKeyValueBreach kb \<Rightarrow> IsKeyValueBreach
                     (kb\<lparr>kvKeyLabel := renderedOr eng (h, bt) ctx (KeyLabel t) (kvKeyLabel kb),
                         kvKey := renderedOr eng (h, bt) ctx (Key t) (kvKey kb),
                         kvValueLabel := renderedOr eng (h, bt) ctx (ValueLabel t) (kvValueLabel kb),
                         kvValue := renderedOr eng (h, bt) ctx (Value t) (kvValue kb),
                         kvRemediator := r\<rparr>)
                 | IsKeyValuesBreach ks \<Rightarrow> IsKeyValuesBreach
                     (ks\<lparr>kvsKeyLabel := renderedOr eng (h, bt) ctx (KeyLabel t) (kvsKeyLabel ks),
                         kvsKey := renderedOr eng (h, bt) ctx (Key t) (kvsKey ks),
                         kvsValueLabel :=
                           renderedOr eng (h, bt) ctx (ValueLabel t) (kvsValueLabel ks),
                         kvsRemediator := r\<rparr>))"
    using len
    by (simp add: res legacyBreach_def assms(2) split: Breach.split)
next
  assume raw: "Type t = [] \<and> Template t = [] \<and> Templates t = []"
  then have w: "w' = (h[b := SetRemediator r (h ! b)], AddBreach bt b)"
    using assms(2,5) by (simp add: EvaluateTemplateWithContext_def GetBreachTemplate_def)
  show "last (breaches (snd w')) = b" by (simp add: w AddBreach_def)
  show "fst w' =
                h[b := (case h ! b of
                          IsValueBreach vb \<Rightarrow> IsValueBreach (vb\<lparr>vRemediator := r\<rparr>)
                        | IsKeyValueBreach kb \<Rightarrow> IsKeyValueBreach (kb\<lparr>kvRemediator := r\<rparr>)
                        | IsKeyValuesBreach ks \<Rightarrow> IsKeyValuesBreach (ks\<lparr>kvsRemediator := r\<rparr>))]"
    by (simp add: w split: Breach.split)
qed

theorem rich_path_fresh_legacy_in_place_witness:
  "(0::nat) < length [IsValueBreach sampleValue]
   \<and> selectTemplateStr richTemplate ''pretty'' = ''{{ .Breach.Value | upper }}''
   \<and> EvaluateTemplateWithContext sample_engine
        ([IsValueBreach sampleValue], mock richTemplate) 0 (Some 7) ''pretty''
      = ([IsValueBreach sampleValue,
          IsValueBreach
            \<lparr>vBreachType = ''value'', vCheckType = ''file'', vCheckName = ''security-check'',
             vSeverity = ''high'', vValueLabel = [], vValue = ''FAIL B'',
             vRemediator = Some 7,
             vRemediationResult = \<lparr>Status = [], Messages = []\<rparr>\<rparr>],
         \<lparr>template = richTemplate, breaches = [1]\<rparr>)
   \<and> emitted (EvaluateTemplateWithContext sample_engine
        ([IsValueBreach sampleValue], mock richTemplate) 0 (Some 7) ''pretty'')
      = IsValueBreach
            \<lparr>vBreachType = ''value'', vCheckType = ''file'', vCheckName = ''security-check'',
             vSeverity = ''high'', vValueLabel = [], vValue = ''FAIL B'',
             vRemediator = Some 7,
             vRemediationResult = \<lparr>Status = [], Messages = []\<rparr>\<rparr>
   \<and> selectTemplateStr typedValueTemplate ''pretty'' = []
   \<and> Type typedValueTemplate = ''value''
   \<and> EvaluateTemplateWithContext sample_engine
        ([IsValueBreach sampleValue], mock typedValueTemplate) 0 (Some 7) ''pretty''
      = ([IsValueBreach
            \<lparr>vBreachType = [], vCheckType = ''file'', vCheckName = ''security-check'',
             vSeverity = ''high'', vValueLabel = ''file'', vValue = ''FAIL B'',
             vRemediator = Some 7,
             vRemediationResult = \<lparr>Status = [], Messages = []\<rparr>\<rparr>],
         \<lparr>template = typedValueTemplate, breaches = [0]\<rparr>)
   \<and> fst (EvaluateTemplateWithContext sample_engine
        ([IsValueBreach sampleValue], mock typedValueTemplate) 0 (Some 7) ''pretty'') ! 0
      = IsValueBreach
            \<lparr>vBreachType = [], vCheckType = ''file'', vCheckName = ''security-check'',
             vSeverity = ''high'', vValueLabel = ''file'', vValue = ''FAIL B'',
             vRemediator = Some 7,
             vRemediationResult = \<lparr>Status = [], Messages = []\<rparr>\<rparr>
   \<and> Type emptyTemplate = [] \<and> Template emptyTemplate = [] \<and> Templates emptyTemplate = []
   \<and> EvaluateTemplateWithContext sample_engine
        ([IsKeyValuesBreach sampleKeyValues], mock emptyTemplate) 0 (Some 7) ''pretty''
      = ([IsKeyValuesBreach
            \<lparr>kvsBreachType = [], kvsCheckType = ''file'', kvsCheckName = ''file_check'',
             kvsSeverity = ''low'', kvsKeyLabel = ''dir'', kvsKey = ''config_files'',
             kvsValueLabel = ''files'', kvsValues = [''a.yml'', ''b.yml'', ''c.yml''],
             kvsRemediator = Some 7,
             kvsRemediationResult = \<lparr>Status = [], Messages = []\<rparr>\<rparr>],
         \<lparr>template = emptyTemplate, breaches = [0]\<rparr>)"
  using rich_path_fresh_legacy_in_place[where b = 0 and h = "[IsValueBreach sampleValue]" and bt = "mock richTemplate"
             and fmt = "''pretty''" and eng = sample_engine and r = "Some 7",
           OF _ refl refl refl refl]
        rich_path_fresh_legacy_in_place[where b = 0 and h = "[IsValueBreach sampleValue]"
             and bt = "mock typedValueTemplate"
             and fmt = "''pretty''" and eng = sample_engine and r = "Some 7",
           OF _ refl refl refl refl]
        rich_path_fresh_legacy_in_place[where b = 0 and h = "[IsKeyValuesBreach sampleKeyValues]"
             and bt = "mock emptyTemplate"
             and fmt = "''pretty''" and eng = sample_engine and r = "Some 7",
           OF _ refl refl refl refl]
  by (simp add: richTemplate_def typedValueTemplate_def valueOnlyTemplate_def emptyTemplate_def
        mock_def sampleValue_def sampleKeyValues_def BreachTypeValue_def noRemediationResult_def
        EvaluateTemplateWithContext_def EvaluateTemplateStringWithContext_def
        GetBreachTemplate_def AddBreach_def sample_engine_def new_breach_def
        newTemplateContext_def selectTemplateStr_def renderField_def legacyBreach_def
        toUpperASCII_def enhancedBreach_def emitted_def renderedOr_def)

section \<open>The function library\<close>

lemma truncate_panics_iff:
  "truncate len s = Inl SliceBoundsOutOfRange \<longleftrightarrow> len < 0"
  by (auto simp: truncate_def slice_to_def split: sum.splits if_splits)

lemma ellipsis_panics_iff:
  "ellipsis len s = Inl SliceBoundsOutOfRange \<longleftrightarrow> len < 0"
  by (auto simp: ellipsis_def slice_to_def split: sum.splits if_splits)

lemma div_mod_by_zero: "div_f a 0 = 0 \<and> mod_f a 0 = 0"
  by (simp add: div_f_def mod_f_def)

lemma slice_f_examples:
  "slice_f 5 10 [''a'', ''b'', ''c''] = []
   \<and> slice_f (-1) 2 [''a'', ''b'', ''c''] = [''a'', ''b'']"
  by (simp add: slice_f_def)

text \<open>
  C6 (the code at the failing input).  \<^verbatim>\<open>truncate -5 "hello world"\<close> and
  \<^verbatim>\<open>ellipsis -1 "hello world"\<close> panic on the slice expression; the edge-case test of the
  repository expects the former to be the empty string with no error.  With lengths 10, 0
  and 1 \<^verbatim>\<open>truncate\<close> returns what the tests expect.
\<close>

theorem truncate_negative_length_panics:
  "truncate (-5) ''hello world'' = Inl SliceBoundsOutOfRange
   \<and> ellipsis (-1) ''hello world'' = Inl SliceBoundsOutOfRange
   \<and> truncate 10 ''This is a very long string'' = Inr ''This is...''
   \<and> truncate 0 ''hello world'' = Inr []
   \<and> truncate 1 ''hello world'' = Inr ''h''"
  by (simp add: truncate_def ellipsis_def slice_to_def)

section \<open>Evaluation is a function of the source and the context\<close>


lemma now_reads_the_clock:
  "\<exists>f. TemplateFuncs go ''now'' = Some f \<and> (\<forall>t. f [] t = Returned (GTime t))"
  by (simp add: TemplateFuncs_def call0_def)





section \<open>humanize\<close>

subsection \<open>Rounding to a float is monotone and exact on small integers\<close>

lemma floor_rat_numeral: "\<lfloor>numeral a / numeral b :: rat\<rfloor> = numeral a div numeral b"
  using floor_divide_of_int_eq[of "numeral a" "numeral b", where ?'a = rat] by simp












subsection \<open>The suffix loop stops at the thresholds\<close>

lemmas f64_eval = float64_def exponent_def compute_floorlog rne_def Let_def floor_rat_numeral






















subsection \<open>Words\<close>




subsection \<open>Evaluations\<close>

lemmas fmt_eval = sprintf_f_def FormatNat.simps FormatInt_def digitByte_def zeroPad_def rne_def
   Let_def floor_rat_numeral















section \<open>The table on the inputs of the repository's tests\<close>

lemma bytesLoop_stop: "n < 1024 \<Longrightarrow> bytesLoop n dv ex = (dv, ex)"
  by (simp add: bytesLoop.simps)

lemma bytesLoop_continue:
  "1024 \<le> n \<Longrightarrow> bytesLoop n dv ex = bytesLoop (n div 1024) (int64 (dv * 1024)) (ex + 1)"
  by (subst bytesLoop.simps) simp

text \<open>\<^verbatim>\<open>humanizeBytes\<close> on the inputs of \<^verbatim>\<open>TestHelperFunctions\<close>.\<close>

lemma humanizeBytes_500: "humanizeBytes 500 = Inr ''500 B''"
  by (simp add: humanizeBytes_def fmt_eval)

lemma humanizeBytes_1024: "humanizeBytes 1024 = Inr ''1.0 KB''"
proof -
  have l: "bytesLoop (1024 div 1024) 1024 0 = (1024, 0)"
    by (simp add: bytesLoop_stop)
  have q: "float64 (float64 (of_int 1024) / float64 (of_int 1024)) = 1"
    by (simp add: f64_eval)
  show ?thesis
    unfolding humanizeBytes_def l
    by (simp only: Let_def fst_conv snd_conv q) (simp add: units_def fmt_eval)
qed

lemma humanizeBytes_1048576: "humanizeBytes 1048576 = Inr ''1.0 MB''"
proof -
  have l: "bytesLoop (1048576 div 1024) 1024 0 = (1048576, 1)"
    by (simp add: bytesLoop_continue bytesLoop_stop int64_def)
  have q: "float64 (float64 (of_int 1048576) / float64 (of_int 1048576)) = 1"
    by (simp add: f64_eval)
  show ?thesis
    unfolding humanizeBytes_def l
    by (simp only: Let_def fst_conv snd_conv q) (simp add: units_def fmt_eval)
qed

lemma humanizeBytes_1073741824: "humanizeBytes 1073741824 = Inr ''1.0 GB''"
proof -
  have l: "bytesLoop (1073741824 div 1024) 1024 0 = (1073741824, 2)"
    by (simp add: bytesLoop_continue bytesLoop_stop int64_def)
  have q: "float64 (float64 (of_int 1073741824) / float64 (of_int 1073741824)) = 1"
    by (simp add: f64_eval)
  show ?thesis
    unfolding humanizeBytes_def l
    by (simp only: Let_def fst_conv snd_conv q) (simp add: units_def fmt_eval)
qed

lemma humanizeBytes_1536: "humanizeBytes 1536 = Inr ''1.5 KB''"
proof -
  have l: "bytesLoop (1536 div 1024) 1024 0 = (1024, 0)"
    by (simp add: bytesLoop_stop)
  have q: "float64 (float64 (of_int 1536) / float64 (of_int 1024)) = 3 / 2"
    by (simp add: f64_eval)
  show ?thesis
    unfolding humanizeBytes_def l
    by (simp only: Let_def fst_conv snd_conv q) (simp add: units_def fmt_eval)
qed

text \<open>Entries of the table on inputs of \<^verbatim>\<open>TestTemplateFunctions\<close>, at any reading \<open>t\<close> of
  the clock and for any standard library.\<close>

lemma TemplateFuncs_tests:
  "\<exists>f. TemplateFuncs go ''pluralize'' = Some f
       \<and> f [GInt TInt 1, GString ''file'', GString ''files''] t = Returned (GString ''file'')
       \<and> f [GInt TInt 5, GString ''file'', GString ''files''] t = Returned (GString ''files'')"
  "\<exists>f. TemplateFuncs go ''truncate'' = Some f
       \<and> f [GInt TInt 10, GString ''This is a very long string''] t
           = Returned (GString ''This is...'')
       \<and> f [GInt TInt (- 5), GString ''hello world''] t
           = Panicked ''slice bounds out of range''
       \<and> f [GString ''10'', GString ''hello world''] t = Refused"
  "\<exists>f. TemplateFuncs go ''add'' = Some f \<and> f [GInt TInt 5, GInt TInt 3] t = Returned (GInt TInt 8)"
  "\<exists>f. TemplateFuncs go ''sub'' = Some f \<and> f [GInt TInt 10, GInt TInt 3] t = Returned (GInt TInt 7)"
  "\<exists>f. TemplateFuncs go ''max'' = Some f \<and> f [GInt TInt 5, GInt TInt 8] t = Returned (GInt TInt 8)"
  "\<exists>f. TemplateFuncs go ''min'' = Some f \<and> f [GInt TInt 5, GInt TInt 8] t = Returned (GInt TInt 5)"
  "\<exists>f. TemplateFuncs go ''div'' = Some f \<and> f [GInt TInt 10, GInt TInt 0] t = Returned (GInt TInt 0)"
  "\<exists>f. TemplateFuncs go ''default'' = Some f
       \<and> f [GString ''fallback'', GString []] t = Returned (GString ''fallback'')
       \<and> f [GString ''fallback'', GString ''actual''] t = Returned (GString ''actual'')"
  "\<exists>f. TemplateFuncs go ''empty'' = Some f
       \<and> f [GString []] t = Returned (GBool True)
       \<and> f [GString ''value''] t = Returned (GBool False)"
  "\<exists>f. TemplateFuncs go ''len'' = Some f
       \<and> f [GSlice [GString ''a'', GString ''b'', GString ''c'']] t = Returned (GInt TInt 3)"
  "\<exists>f. TemplateFuncs go ''first'' = Some f
       \<and> f [GSlice [GString ''first'', GString ''second'', GString ''third'']] t
           = Returned (GString ''first'')
       \<and> f [GSlice []] t = Returned GNil"
  "\<exists>f. TemplateFuncs go ''last'' = Some f
       \<and> f [GSlice [GString ''first'', GString ''second'', GString ''third'']] t
           = Returned (GString ''third'')"
  "\<exists>f. TemplateFuncs go ''slice'' = Some f
       \<and> f [GInt TInt 0, GInt TInt 2, GSlice [GString ''a'', GString ''b'', GString ''c'']] t
           = Returned (GSlice [GString ''a'', GString ''b''])"
  "\<exists>f. TemplateFuncs go ''bytes'' = Some f
       \<and> f [GInt TInt64 1024] t = Returned (GString ''1.0 KB'')"
  "\<exists>f. TemplateFuncs go ''humanize'' = Some f
       \<and> f [GString ''test_string_value''] t = Returned (GString ''Test String Value'')"
  by (simp_all add: TemplateFuncs_def fn_def call1_def call2_def call3_def
        asInt_def asInt64_def asString_def asAny_def retString_def retInt_def retBool_def
        retSliced_def retStringOrPanic_def pluralize_def truncate_def slice_to_def int64_def
        div_f_def default_f_def empty_f_def under_def len_f_def first_f_def last_f_def
        slice_v_def slice_f_def humanizeBytes_1024 humanize_f_def humanize_def
        humanizeString_def Fields_def FieldsFunc_def ReplaceAllByte_def isSpace_def
        capitalizeWord_def)

end
